theory Spec2Isabelle
  imports Main
begin

section \<open>Go strings and the \<open>strings\<close> functions the service calls\<close>

text \<open>
  A Go string is a byte sequence; every string the service handles comes from the page's
  \<open>InnerText\<close>/\<open>GetAttribute\<close> or from \<open>json.Unmarshal\<close>, which deliver valid UTF-8.
  \<open>strings.TrimSpace\<close>, \<open>strings.Fields\<close> and \<open>strings.EqualFold\<close> work rune by rune
  on such strings and \<open>strings.ReplaceAll\<close> can only match at rune boundaries, so a
  string is modelled as the list of its runes (Unicode code points).
\<close>

type_synonym rune = nat
type_synonym gostring = "rune list"

definition str :: "string \<Rightarrow> gostring" where
  \<comment> \<open>an ASCII literal of the source as a rune list\<close>
  "str cs = map of_char cs"

definition isSpace :: "rune \<Rightarrow> bool" where
  \<comment> \<open>\<open>unicode.IsSpace\<close>: tab, LF, VT, FF, CR, space, U+0085, U+00A0 and the other
      runes of the Unicode White_Space property\<close>
  "isSpace r \<longleftrightarrow>
     r = 9 \<or> r = 10 \<or> r = 11 \<or> r = 12 \<or> r = 13 \<or> r = 32 \<or> r = 133 \<or> r = 160 \<or>
     r = 5760 \<or> (8192 \<le> r \<and> r \<le> 8202) \<or> r = 8232 \<or> r = 8233 \<or> r = 8239 \<or>
     r = 8287 \<or> r = 12288"

definition TrimSpace :: "gostring \<Rightarrow> gostring" where
  "TrimSpace s = rev (dropWhile isSpace (rev (dropWhile isSpace s)))"

fun HasPrefix :: "gostring \<Rightarrow> gostring \<Rightarrow> bool" where
  "HasPrefix s [] = True"
| "HasPrefix [] (p # ps) = False"
| "HasPrefix (c # cs) (p # ps) = (c = p \<and> HasPrefix cs ps)"

definition TrimPrefix :: "gostring \<Rightarrow> gostring \<Rightarrow> gostring" where
  "TrimPrefix s p = (if HasPrefix s p then drop (length p) s else s)"

text \<open>
  \<open>strings.ReplaceAll s old new\<close> replaces the non-overlapping occurrences of \<open>old\<close>
  from left to right. \<open>replaceScan\<close> is that scan for a non-empty \<open>old\<close>: \<open>k\<close> counts
  the runes of a match still to be skipped. An empty \<open>old\<close> matches before every rune and
  at the end of the string.
\<close>

fun replaceScan :: "gostring \<Rightarrow> gostring \<Rightarrow> nat \<Rightarrow> gostring \<Rightarrow> gostring" where
  "replaceScan old new k [] = []"
| "replaceScan old new (Suc k) (c # cs) = replaceScan old new k cs"
| "replaceScan old new 0 (c # cs) =
     (if HasPrefix (c # cs) old then new @ replaceScan old new (length old - 1) cs
      else c # replaceScan old new 0 cs)"

definition ReplaceAll :: "gostring \<Rightarrow> gostring \<Rightarrow> gostring \<Rightarrow> gostring" where
  "ReplaceAll s old new =
     (if old = new then s
      else if old = [] then new @ concat (map (\<lambda>c. c # new) s)
      else replaceScan old new 0 s)"

text \<open>
  \<open>strings.Fields\<close> splits around each run of white space; \<open>cur\<close> is the field being
  read. \<open>strings.Join\<close> puts the separator between the elements.
\<close>

fun fieldsFrom :: "gostring \<Rightarrow> gostring \<Rightarrow> gostring list" where
  "fieldsFrom cur [] = (if cur = [] then [] else [cur])"
| "fieldsFrom cur (c # cs) =
     (if isSpace c then (if cur = [] then fieldsFrom [] cs else cur # fieldsFrom [] cs)
      else fieldsFrom (cur @ [c]) cs)"

definition Fields :: "gostring \<Rightarrow> gostring list" where
  "Fields s = fieldsFrom [] s"

fun Join :: "gostring list \<Rightarrow> gostring \<Rightarrow> gostring" where
  "Join [] sep = []"
| "Join [w] sep = w"
| "Join (w # v # ws) sep = w @ sep @ Join (v # ws) sep"

text \<open>
  \<open>strings.EqualFold\<close> compares rune by rune. Two ASCII runes are equal under folding
  when they are the same or an upper-case letter and its lower-case form; for any other
  pair it follows the orbit of \<open>unicode.SimpleFold\<close> from the smaller rune to the larger.
  The Unicode case table is not part of this development: \<open>orbit lo hi\<close> stands for
  "the \<open>SimpleFold\<close> orbit of \<open>lo\<close> reaches \<open>hi\<close>", and every theorem holds for every
  such table.
\<close>

type_synonym foldtable = "rune \<Rightarrow> rune \<Rightarrow> bool"

definition runeFoldEq :: "foldtable \<Rightarrow> rune \<Rightarrow> rune \<Rightarrow> bool" where
  "runeFoldEq orbit sr tr =
     (if tr = sr then True
      else let lo = min sr tr; hi = max sr tr in
        if hi < 128 then 65 \<le> lo \<and> lo \<le> 90 \<and> hi = lo + 32
        else orbit lo hi)"

fun EqualFold :: "foldtable \<Rightarrow> gostring \<Rightarrow> gostring \<Rightarrow> bool" where
  "EqualFold orbit [] t = (t = [])"
| "EqualFold orbit (sr # s) [] = False"
| "EqualFold orbit (sr # s) (tr # t) = (runeFoldEq orbit sr tr \<and> EqualFold orbit s t)"

section \<open>The service state\<close>

text \<open>
  A Go \<open>error\<close> is the message of \<open>fmt.Errorf\<close> and, for \<open>%w\<close>, the error it wraps.
  Errors raised by the page or the network are \<open>Cause\<close>s chosen by the environment.
\<close>

datatype error = Cause string | Wrap string error

text \<open>
  A conversation turn is the Go map \<open>{"role": r, "content": c}\<close>; every such map in the
  source has exactly these two keys.
\<close>

record turn =
  role :: gostring
  content :: gostring

text \<open>
  The fields of \<open>Service\<close> that the watch loop reads and writes. \<open>seenMessages\<close> is a
  \<open>map[string]bool\<close>; a missing key reads as false.
\<close>

record service =
  seenMessages :: "gostring \<rightharpoonup> bool"
  botUsername :: gostring
  conversationHistory :: "turn list"

definition seen :: "service \<Rightarrow> gostring \<Rightarrow> bool" where
  \<comment> \<open>the Go lookup \<open>s.seenMessages[id]\<close>\<close>
  "seen s i = (case seenMessages s i of Some b \<Rightarrow> b | None \<Rightarrow> False)"

definition updateConversationHistory :: "service \<Rightarrow> turn \<Rightarrow> turn \<Rightarrow> service" where
  "updateConversationHistory s userMessage assistantMessage =
     (let h = conversationHistory s @ [userMessage] @ [assistantMessage]
      in s\<lparr>conversationHistory := (if length h > 10 then drop (length h - 10) h else h)\<rparr>)"

definition userTurn :: "gostring \<Rightarrow> turn" where
  "userTurn c = \<lparr>role = str ''user'', content = c\<rparr>"

definition assistantTurn :: "gostring \<Rightarrow> turn" where
  "assistantTurn c = \<lparr>role = str ''assistant'', content = c\<rparr>"

definition New :: "gostring \<Rightarrow> gostring \<Rightarrow> error + service" where
  \<comment> \<open>the two arguments are the environment variables PROXY_API_KEY and BOT_USERNAME;
      installing the browser driver and creating the save directory are left out\<close>
  "New apiKey botName =
     (if apiKey = [] then Inl (Cause ''proxy API key is not set in environment variable PROXY_API_KEY'')
      else if botName = [] then Inl (Cause ''bot username is not set in environment variable BOT_USERNAME'')
      else Inr \<lparr>seenMessages = Map.empty, botUsername = botName, conversationHistory = []\<rparr>)"

section \<open>The page, the completion service and the effects of the loop\<close>

text \<open>
  What the page answers for one \<open>div[role='article']\<close> during one poll: each query of the
  source is a field holding the error or the value it returned, a missing element is
  \<open>None\<close> (Go's \<open>nil\<close> handle). The text of a mention element is read twice in one
  pass, by the mention check and by the clean-up of the content; both reads get the same
  answer.
\<close>

datatype element = Element (InnerText: "error + gostring")

datatype replyctx = ReplyCtx (usernameSpan: "error + element option")

record message =
  idAttr :: "error + gostring"
  usernameElement :: "error + element option"
  replyContext :: "error + replyctx option"
  mentionElements :: "error + element list"
  contentElement :: "error + element option"

text \<open>
  A decoded JSON value, as \<open>json.Unmarshal\<close> builds it under \<open>interface{}\<close>; an object
  keeps its members in the order of the text, and a repeated key reads as its last value.
\<close>

datatype json =
    JNull
  | JBool bool
  | JNumber string
  | JString gostring
  | JArray "json list"
  | JObject "(gostring \<times> json) list"

definition member :: "(gostring \<times> json) list \<Rightarrow> gostring \<Rightarrow> json option" where
  "member kvs k = map_of (rev kvs) k"

text \<open>
  What the completion endpoint does with one request: each failure point of the source
  (\<open>json.Marshal\<close>, \<open>http.NewRequest\<close>, \<open>client.Do\<close>, \<open>io.ReadAll\<close>), or a response with
  its status code and a body that is either not JSON or a JSON value.
\<close>

datatype body = Malformed error | Parsed json

datatype completion =
    MarshalFailed error
  | NewRequestFailed error
  | SendFailed error
  | ReadFailed error
  | Response nat body

text \<open>What the page's text box does when the reply is typed.\<close>

datatype textbox =
    TextboxQueryFailed error
  | TextboxMissing
  | Textbox (click: "error option") (typing: "error option") (press: "error option")

record reaction =
  completion :: completion
  textbox :: textbox

text \<open>
  The effects the loop has on the outside, in order. Log events carry the message of the
  source, not the error value or the formatted payload.
\<close>

datatype event =
    LogError string
  | LogDebug string
  | Println "gostring list"
  | Request "turn list"
  | Click
  | Type gostring
  | Press string
  | Sleep

datatype 'a go = Return 'a | Err error | Panic

section \<open>askChatGPT\<close>

definition systemPrompt :: gostring where
  "systemPrompt =
    [1054, 1090, 1074, 1077, 1095, 1072, 1081, 32, 1087, 1086, 1083, 1100, 1079, 1086, 1074,
     1072, 1090, 1077, 1083, 1102, 32, 1086, 1090, 32, 1087, 1077, 1088, 1074, 1086, 1075,
     1086, 32, 1083, 1080, 1094, 1072, 32, 1077, 1076, 1080, 1085, 1089, 1090, 1074, 1077,
     1085, 1085, 1086, 1075, 1086, 32, 1095, 1080, 1089, 1083, 1072, 46, 10, 1058, 1074, 1086,
     1080, 32, 1086, 1090, 1074, 1077, 1090, 1099, 32, 1074, 1089, 1077, 1075, 1076, 1072, 32,
     1085, 1072, 32, 1088, 1091, 1089, 1089, 1082, 1086, 1084, 32, 1103, 1079, 1099, 1082,
     1077, 46, 10, 1058, 1099, 32, 1085, 1077, 32, 1080, 1089, 1087, 1086, 1083, 1100, 1079,
     1091, 1077, 1096, 1100, 32, 1079, 1072, 1087, 1103, 1090, 1099, 1077, 32, 1074, 32, 1089,
     1074, 1086, 1080, 1093, 32, 1087, 1088, 1077, 1076, 1083, 1086, 1078, 1077, 1085, 1080,
     1103, 1093, 46, 32, 1042, 1084, 1077, 1089, 1090, 1086, 32, 1090, 1086, 1095, 1077, 1082,
     32, 1085, 1072, 1095, 1080, 1085, 1072, 1081, 32, 1085, 1086, 1074, 1091, 1102, 32, 1089,
     1090, 1088, 1086, 1082, 1091, 46, 10, 1053, 1077, 32, 1079, 1072, 1076, 1072, 1074, 1072,
     1081, 32, 1074, 1086, 1087, 1088, 1086, 1089, 1086, 1074, 32, 1074, 1088, 1086, 1076,
     1077, 32, 34, 1063, 1077, 1084, 32, 1103, 32, 1084, 1086, 1075, 1091, 32, 1087, 1086,
     1084, 1086, 1095, 1100, 63, 34, 32, 1080, 1083, 1080, 32, 1087, 1086, 1076, 1086, 1073,
     1085, 1099, 1093, 46, 10, 1058, 1074, 1086, 1080, 32, 1086, 1090, 1074, 1077, 1090, 1099,
     32, 1076, 1086, 1083, 1078, 1085, 1099, 32, 1073, 1099, 1090, 1100, 32, 1082, 1088, 1072,
     1090, 1082, 1080, 1084, 1080, 44, 32, 1085, 1077, 32, 1073, 1086, 1083, 1077, 1077, 32,
     53, 48, 32, 1089, 1083, 1086, 1074, 44, 32, 1080, 32, 1089, 1086, 1079, 1076, 1072, 1074,
     1072, 1090, 1100, 32, 1074, 1087, 1077, 1095, 1072, 1090, 1083, 1077, 1085, 1080, 1077,
     44, 32, 1095, 1090, 1086, 32, 1075, 1086, 1074, 1086, 1088, 1080, 1090, 32, 1088, 1077,
     1072, 1083, 1100, 1085, 1099, 1081, 32, 1095, 1077, 1083, 1086, 1074, 1077, 1082, 46, 10,
     1042, 1089, 1077, 32, 1089, 1080, 1084, 1074, 1086, 1083, 1099, 44, 32, 1082, 1088, 1086,
     1084, 1077, 32, 1087, 1077, 1088, 1074, 1086, 1075, 1086, 32, 1074, 32, 1089, 1090, 1088,
     1086, 1082, 1077, 44, 32, 1076, 1086, 1083, 1078, 1085, 1099, 32, 1073, 1099, 1090, 1100,
     32, 1074, 32, 1085, 1080, 1078, 1085, 1077, 1084, 32, 1088, 1077, 1075, 1080, 1089, 1090,
     1088, 1077, 46, 10, 1058, 1099, 32, 1084, 1086, 1078, 1077, 1096, 1100, 32, 1080, 1089,
     1087, 1086, 1083, 1100, 1079, 1086, 1074, 1072, 1090, 1100, 32, 1090, 1086, 1083, 1100,
     1082, 1086, 32, 1074, 1086, 1087, 1088, 1086, 1089, 1080, 1090, 1077, 1083, 1100, 1085,
     1099, 1077, 32, 1080, 32, 1074, 1086, 1089, 1082, 1083, 1080, 1094, 1072, 1090, 1077,
     1083, 1100, 1085, 1099, 1077, 32, 1079, 1085, 1072, 1082, 1080, 59, 32, 1085, 1077, 32,
     1080, 1089, 1087, 1086, 1083, 1100, 1079, 1091, 1081, 32, 1076, 1088, 1091, 1075, 1080,
     1077, 32, 1089, 1080, 1084, 1074, 1086, 1083, 1099, 32, 1074, 1088, 1086, 1076, 1077, 32,
     1076, 1077, 1092, 1080, 1089, 1086, 1074, 46]"

definition requestMessages :: "service \<Rightarrow> gostring \<Rightarrow> turn list" where
  \<comment> \<open>the \<open>messages\<close> of the request: system prompt, stored history, the new user turn\<close>
  "requestMessages s message =
     [\<lparr>role = str ''system'', content = systemPrompt\<rparr>] @ conversationHistory s
       @ [\<lparr>role = str ''user'', content = message\<rparr>]"

fun unmarshal :: "body \<Rightarrow> error + (gostring \<times> json) list" where
  \<comment> \<open>\<open>json.Unmarshal(bodyBytes, &respData)\<close> with \<open>respData\<close> a \<open>map[string]interface{}\<close>:
      \<open>null\<close> leaves the nil map, any other non-object is a type error\<close>
  "unmarshal (Malformed e) = Inl e"
| "unmarshal (Parsed (JObject kvs)) = Inr kvs"
| "unmarshal (Parsed JNull) = Inr []"
| "unmarshal (Parsed j) = Inl (Cause ''json: cannot unmarshal into Go value of type map[string]interface {}'')"

definition normalizeReply :: "gostring \<Rightarrow> gostring" where
  \<comment> \<open>lines 414 to 420: the shaping of the reply text\<close>
  "normalizeReply c =
     (let reply = TrimSpace c;
          reply = ReplaceAll reply (str '','') [];
          reply = ReplaceAll reply (str ''.'') [10];
          words = Fields reply
      in if length words > 50 then Join (take 50 words) (str '' '') else reply)"

definition extractContent :: "(gostring \<times> json) list \<Rightarrow> gostring go" where
  \<comment> \<open>lines 410 to 433; \<open>choices[0].(map[string]interface{})\<close> is the one type assertion
      without the \<open>ok\<close> form and panics when the first choice is not an object\<close>
  "extractContent respData =
     (case member respData (str ''choices'') of
        Some (JArray (c # cs)) \<Rightarrow>
          (case c of
             JObject firstChoice \<Rightarrow>
               (case member firstChoice (str ''message'') of
                  Some (JObject messageMap) \<Rightarrow>
                    (case member messageMap (str ''content'') of
                       Some (JString reply) \<Rightarrow> Return reply
                     | _ \<Rightarrow> Err (Cause ''invalid response format''))
                | _ \<Rightarrow> Err (Cause ''invalid response format''))
           | _ \<Rightarrow> Panic)
      | _ \<Rightarrow> Err (Cause ''invalid response format''))"

definition askChatGPT :: "service \<Rightarrow> gostring \<Rightarrow> completion \<Rightarrow> gostring go \<times> service \<times> event list" where
  "askChatGPT s message0 answer =
     (let message = ReplaceAll message0 (str '','') [];
          message = ReplaceAll message (str ''.'') [10];
          messages = requestMessages s message
      in case answer of
           MarshalFailed e \<Rightarrow> (Err (Wrap ''failed to create request body'' e), s, [])
         | NewRequestFailed e \<Rightarrow> (Err (Wrap ''failed to create request'' e), s, [])
         | SendFailed e \<Rightarrow> (Err (Wrap ''failed to send request'' e), s, [Request messages])
         | ReadFailed e \<Rightarrow> (Err (Wrap ''failed to read response body'' e), s, [Request messages])
         | Response status b \<Rightarrow>
             if status \<noteq> 200 then (Err (Cause ''received non-OK HTTP status''), s, [Request messages])
             else (case unmarshal b of
                     Inl e \<Rightarrow> (Err (Wrap ''failed to parse response'' e), s, [Request messages])
                   | Inr respData \<Rightarrow>
                       (case extractContent respData of
                          Panic \<Rightarrow> (Panic, s, [Request messages])
                        | Err e \<Rightarrow> (Err e, s, [Request messages])
                        | Return c \<Rightarrow>
                            let reply = normalizeReply c
                            in (Return reply,
                                updateConversationHistory s (userTurn message) (assistantTurn reply),
                                [Request messages]))))"

section \<open>typeInChat\<close>

definition typeInChat :: "gostring \<Rightarrow> textbox \<Rightarrow> error option \<times> event list" where
  "typeInChat response box =
     (case box of
        TextboxQueryFailed e \<Rightarrow> (Some (Wrap ''failed to find text input box'' e), [])
      | TextboxMissing \<Rightarrow> (Some (Cause ''text input box not found''), [])
      | Textbox clickRes typeRes pressRes \<Rightarrow>
          (case clickRes of
             Some e \<Rightarrow> (Some (Wrap ''failed to click on text input box'' e), [])
           | None \<Rightarrow>
               (case typeRes of
                  Some e \<Rightarrow> (Some (Wrap ''failed to type response'' e), [Click])
                | None \<Rightarrow>
                    (case pressRes of
                       Some e \<Rightarrow> (Some (Wrap ''failed to send message'' e), [Click, Type response])
                     | None \<Rightarrow> (None, [Click, Type response, Press ''Enter''])))))"

section \<open>ReadMessages\<close>

text \<open>
  The outcome of handling one message: the service afterwards and the effects, or a panic
  after some effects (nothing in the program recovers from it).
\<close>

datatype progress = Next service "event list" | Crash "event list"

fun after :: "event list \<Rightarrow> progress \<Rightarrow> progress" where
  \<comment> \<open>the effects \<open>evs\<close> happened before the ones of the outcome\<close>
  "after evs (Next s evs') = Next s (evs @ evs')"
| "after evs (Crash evs') = Crash (evs @ evs')"

definition nameMatches :: "foldtable \<Rightarrow> gostring \<Rightarrow> gostring \<Rightarrow> bool" where
  \<comment> \<open>\<open>TrimSpace\<close>, \<open>TrimPrefix "@"\<close>, \<open>EqualFold\<close> against the bot's name: the same three
      lines for the author (220 to 222), a mention (244 to 246) and a reply target (318 to 320)\<close>
  "nameMatches orbit botName name = EqualFold orbit (TrimPrefix (TrimSpace name) (str ''@'')) botName"

definition isReplyToBot :: "foldtable \<Rightarrow> service \<Rightarrow> message \<Rightarrow> error + bool" where
  "isReplyToBot orbit s m =
     (case replyContext m of
        Inl e \<Rightarrow> Inl (Wrap ''failed to get reply context'' e)
      | Inr None \<Rightarrow> Inr False
      | Inr (Some ctx) \<Rightarrow>
          (case usernameSpan ctx of
             Inl e \<Rightarrow> Inl (Wrap ''failed to get username in reply context'' e)
           | Inr None \<Rightarrow> Inr False
           | Inr (Some el) \<Rightarrow>
               (case InnerText el of
                  Inl e \<Rightarrow> Inl (Wrap ''failed to get username text'' e)
                | Inr username \<Rightarrow> Inr (nameMatches orbit (botUsername s) username))))"

fun mentionLoop :: "foldtable \<Rightarrow> gostring \<Rightarrow> element list \<Rightarrow> bool \<times> event list" where
  \<comment> \<open>lines 238 to 250: the value of \<open>isMentioned\<close> after the loop, and what it logged\<close>
  "mentionLoop orbit botName [] = (False, [])"
| "mentionLoop orbit botName (mention # rest) =
     (case InnerText mention of
        Inl e \<Rightarrow>
          (case mentionLoop orbit botName rest of
             (isMentioned, logs) \<Rightarrow> (isMentioned, LogError ''Failed to get mention text'' # logs))
      | Inr mentionText \<Rightarrow>
          if nameMatches orbit botName mentionText then (True, [])
          else mentionLoop orbit botName rest)"

fun stripMentions :: "gostring \<Rightarrow> element list \<Rightarrow> gostring" where
  \<comment> \<open>lines 271 to 274; a failed \<open>InnerText\<close> leaves \<open>mentionText\<close> empty\<close>
  "stripMentions cleanContent [] = cleanContent"
| "stripMentions cleanContent (mention # rest) =
     stripMentions
       (ReplaceAll cleanContent (case InnerText mention of Inl e \<Rightarrow> [] | Inr t \<Rightarrow> t) [])
       rest"

definition respond :: "service \<Rightarrow> message \<Rightarrow> element list \<Rightarrow> reaction \<Rightarrow> progress" where
  \<comment> \<open>lines 253 to 288, the body of \<open>if isMentioned || isReply\<close>\<close>
  "respond s m mentions rx =
     (case contentElement m of
        Inl e \<Rightarrow> Next s [LogError ''Failed to get message content element'']
      | Inr None \<Rightarrow> Next s [LogError ''Message content element not found'']
      | Inr (Some el) \<Rightarrow>
          (case InnerText el of
             Inl e \<Rightarrow> Next s [LogError ''Failed to get message text'']
           | Inr raw \<Rightarrow>
               let txt = TrimSpace raw;
                   cleanContent = TrimSpace (stripMentions txt mentions);
                   detected = Println [str ''Detected message to bot:'', txt]
               in (case askChatGPT s cleanContent (completion rx) of
                     (Panic, s', evs) \<Rightarrow> Crash (detected # evs)
                   | (Err e, s', evs) \<Rightarrow>
                       Next s' (detected # evs @ [LogError ''Failed to get response from ChatGPT''])
                   | (Return responseText, s', evs) \<Rightarrow>
                       (case typeInChat responseText (textbox rx) of
                          (Some e, typed) \<Rightarrow>
                            Next s' (detected # evs @ [Println [str ''ChatGPT response:'', responseText]]
                                       @ typed @ [LogError ''Failed to reply in chat''])
                        | (None, typed) \<Rightarrow>
                            Next s' (detected # evs @ [Println [str ''ChatGPT response:'', responseText]]
                                       @ typed)))))"

definition classify :: "foldtable \<Rightarrow> service \<Rightarrow> message \<Rightarrow> reaction \<Rightarrow> progress" where
  \<comment> \<open>lines 226 to 252: reply check, then mention check, then the response\<close>
  "classify orbit s m rx =
     (case isReplyToBot orbit s m of
        Inl e \<Rightarrow> Next s [LogError ''Failed to check if message is a reply to bot'']
      | Inr isReply \<Rightarrow>
          (case mentionElements m of
             Inl e \<Rightarrow> Next s [LogError ''Failed to get mention elements'']
           | Inr mentions \<Rightarrow>
               (case mentionLoop orbit (botUsername s) mentions of
                  (isMentioned, logs) \<Rightarrow>
                    if isMentioned \<or> isReply then after logs (respond s m mentions rx)
                    else Next s logs)))"

definition processMessage :: "foldtable \<Rightarrow> service \<Rightarrow> message \<times> reaction \<Rightarrow> progress" where
  \<comment> \<open>the body of the \<open>for _, message := range messages\<close> loop, lines 191 to 289; the
      reaction is what the completion service and the text box do if this message is answered\<close>
  "processMessage orbit s mr =
     (case mr of (m, rx) \<Rightarrow>
       (case idAttr m of
          Inl e \<Rightarrow> Next s [LogError ''Failed to get message ID'']
        | Inr i \<Rightarrow>
            if i = [] then Next s []
            else if seen s i then Next s []
            else
              let s1 = s\<lparr>seenMessages := (seenMessages s)(i \<mapsto> True)\<rparr>
              in (case usernameElement m of
                    Inl e \<Rightarrow> Next s1 [LogError ''Failed to get username element'']
                  | Inr None \<Rightarrow>
                      Next s1 [LogError ''Username element not found'', LogDebug ''Message HTML: %s'']
                  | Inr (Some el) \<Rightarrow>
                      (case InnerText el of
                         Inl e \<Rightarrow> Next s1 [LogError ''Failed to get username text'']
                       | Inr username \<Rightarrow>
                           if nameMatches orbit (botUsername s1) username then Next s1 []
                           else classify orbit s1 m rx))))"

fun processMessages :: "foldtable \<Rightarrow> service \<Rightarrow> (message \<times> reaction) list \<Rightarrow> progress" where
  "processMessages orbit s [] = Next s []"
| "processMessages orbit s (mr # rest) =
     (case processMessage orbit s mr of
        Crash evs \<Rightarrow> Crash evs
      | Next s' evs \<Rightarrow> after evs (processMessages orbit s' rest))"

fun seedSeen :: "service \<Rightarrow> message list \<Rightarrow> service \<times> event list" where
  \<comment> \<open>the loop of \<open>initializeSeenMessages\<close>, lines 332 to 342\<close>
  "seedSeen s [] = (s, [])"
| "seedSeen s (m # rest) =
     (case idAttr m of
        Inl e \<Rightarrow>
          (case seedSeen s rest of
             (s', logs) \<Rightarrow> (s', LogError ''Failed to get message ID during initialization'' # logs))
      | Inr i \<Rightarrow>
          if i = [] then seedSeen s rest
          else seedSeen (s\<lparr>seenMessages := (seenMessages s)(i \<mapsto> True)\<rparr>) rest)"

definition initializeSeenMessages ::
  "service \<Rightarrow> error + message list \<Rightarrow> error option \<times> service \<times> event list" where
  "initializeSeenMessages s page =
     (case page of
        Inl e \<Rightarrow> (Some (Wrap ''failed to select message elements'' e), s, [])
      | Inr messages \<Rightarrow> (case seedSeen s messages of (s', logs) \<Rightarrow> (None, s', logs)))"

text \<open>
  The watch loop runs until the context is cancelled or the page fails. One \<open>tick\<close> is
  what one iteration meets: a cancelled context with its \<open>ctx.Err()\<close>, or the answer of \<open>QuerySelectorAll\<close>
  with, for each message, the reaction of the outside if it is answered. A run over a
  finite list of ticks ends \<open>Returned\<close> with the error of \<open>ReadMessages\<close>, \<open>Panicked\<close>, or
  \<open>Looping\<close> when the loop is still going after the last tick.
\<close>

datatype tick = Cancelled error | Poll "error + (message \<times> reaction) list"

datatype ending = Returned error | Panicked | Looping

fun watchLoop :: "foldtable \<Rightarrow> service \<Rightarrow> tick list \<Rightarrow> ending \<times> service \<times> event list" where
  "watchLoop orbit s [] = (Looping, s, [])"
| "watchLoop orbit s (Cancelled e # ticks) = (Returned e, s, [])"
| "watchLoop orbit s (Poll (Inl e) # ticks) =
     (Returned (Wrap ''failed to select message elements'' e), s, [])"
| "watchLoop orbit s (Poll (Inr messages) # ticks) =
     (case processMessages orbit s messages of
        Crash evs \<Rightarrow> (Panicked, s, evs)
      | Next s' evs \<Rightarrow>
          (case watchLoop orbit s' ticks of
             (r, s'', evs') \<Rightarrow> (r, s'', evs @ Sleep # evs')))"

definition ReadMessages ::
  "foldtable \<Rightarrow> service \<Rightarrow> error + message list \<Rightarrow> tick list \<Rightarrow> ending \<times> service \<times> event list" where
  "ReadMessages orbit s page ticks =
     (let s0 = s\<lparr>seenMessages := Map.empty\<rparr>;
          starting = Println [str ''Initializing seen messages...'']
      in case initializeSeenMessages s0 page of
           (Some e, s1, logs) \<Rightarrow>
             (Returned (Wrap ''failed to initialize seen messages'' e), s1, starting # logs)
         | (None, s1, logs) \<Rightarrow>
             (case watchLoop orbit s1 ticks of
                (r, s2, evs) \<Rightarrow>
                  (r, s2, starting # logs @ Println [str ''Starting to read new messages...''] # evs)))"

text \<open>The completion requests and the text-box actions among the effects.\<close>

fun isRequest :: "event \<Rightarrow> bool" where
  "isRequest (Request msgs) = True"
| "isRequest ev = False"

fun isInjection :: "event \<Rightarrow> bool" where
  "isInjection Click = True"
| "isInjection (Type t) = True"
| "isInjection (Press k) = True"
| "isInjection ev = False"

definition quiet :: "event list \<Rightarrow> bool" where
  \<comment> \<open>no completion call and nothing done to the text box\<close>
  "quiet evs \<longleftrightarrow> filter isRequest evs = [] \<and> filter isInjection evs = []"

fun effects :: "progress \<Rightarrow> event list" where
  "effects (Next s evs) = evs"
| "effects (Crash evs) = evs"

section \<open>Committing exchanges to the history\<close>

definition exchange :: "gostring \<times> gostring \<Rightarrow> turn list" where
  "exchange p = [userTurn (fst p), assistantTurn (snd p)]"

definition commit :: "service \<Rightarrow> gostring \<times> gostring \<Rightarrow> service" where
  \<comment> \<open>the call of \<open>updateConversationHistory\<close> in \<open>askChatGPT\<close>, lines 421 to 427\<close>
  "commit s p = updateConversationHistory s (userTurn (fst p)) (assistantTurn (snd p))"

definition lastN :: "nat \<Rightarrow> 'a list \<Rightarrow> 'a list" where
  \<comment> \<open>the Go slice \<open>xs[len(xs)-n:]\<close>, or all of \<open>xs\<close> when it is shorter\<close>
  "lastN n xs = drop (length xs - n) xs"

definition commitAll :: "service \<Rightarrow> (gostring \<times> gostring) list \<Rightarrow> turn list" where
  \<comment> \<open>the history after the exchanges \<open>ps\<close> were committed in order, starting from the
      empty history that \<open>New\<close> creates\<close>
  "commitAll s ps = conversationHistory (foldl commit (s\<lparr>conversationHistory := []\<rparr>) ps)"

fun isLog :: "event \<Rightarrow> bool" where
  "isLog (LogError t) = True"
| "isLog (LogDebug t) = True"
| "isLog ev = False"

definition onlyLogs :: "event list \<Rightarrow> bool" where
  \<comment> \<open>nothing but log lines: no print, no completion call, nothing done to the text box\<close>
  "onlyLogs evs = list_all isLog evs"

definition skipped :: "service \<Rightarrow> progress \<Rightarrow> bool" where
  \<comment> \<open>the message was passed over: only log lines, the history as before, no panic\<close>
  "skipped s p =
     (case p of
        Next s' evs \<Rightarrow> onlyLogs evs \<and> conversationHistory s' = conversationHistory s
      | Crash evs \<Rightarrow> False)"

fun userContents :: "event list \<Rightarrow> gostring list" where
  \<comment> \<open>the content of the last turn of each completion request, in order\<close>
  "userContents [] = []"
| "userContents (Request msgs # evs) = content (last msgs) # userContents evs"
| "userContents (ev # evs) = userContents evs"

section \<open>Notions the properties are stated with\<close>

definition punctuationConverted :: "gostring \<Rightarrow> gostring" where
  \<comment> \<open>the reply trimmed, its commas removed, its periods turned into line breaks\<close>
  "punctuationConverted c = ReplaceAll (ReplaceAll (TrimSpace c) (str '','') []) (str ''.'') [10]"

definition wordlike :: "gostring \<Rightarrow> bool" where
  "wordlike w \<longleftrightarrow> w \<noteq> [] \<and> list_all (\<lambda>c. \<not> isSpace c) w"

definition asciiLower :: "rune \<Rightarrow> rune" where
  "asciiLower r = (if 65 \<le> r \<and> r \<le> 90 then r + 32 else r)"

definition markSeen :: "service \<Rightarrow> gostring \<Rightarrow> service" where
  \<comment> \<open>\<open>s.seenMessages[i] = true\<close>\<close>
  "markSeen s i = s\<lparr>seenMessages := (seenMessages s)(i \<mapsto> True)\<rparr>"

definition withoutId :: "gostring \<Rightarrow> (message \<times> reaction) list \<Rightarrow> (message \<times> reaction) list" where
  \<comment> \<open>a poll without the entries whose id attribute reads \<open>i\<close>\<close>
  "withoutId i ms = filter (\<lambda>mr. idAttr (fst mr) \<noteq> Inr i) ms"

fun tickWithoutId :: "gostring \<Rightarrow> tick \<Rightarrow> tick" where
  "tickWithoutId i (Poll (Inr ms)) = Poll (Inr (withoutId i ms))"
| "tickWithoutId i t = t"

definition visibleIds :: "message list \<Rightarrow> gostring list" where
  \<comment> \<open>the non-empty ids that could be read from the messages of a poll\<close>
  "visibleIds ms =
     concat (map (\<lambda>m. case idAttr m of Inl e \<Rightarrow> [] | Inr i \<Rightarrow> if i = [] then [] else [i]) ms)"

definition failing :: "error + element option \<Rightarrow> bool" where
  \<comment> \<open>the element query failed, found nothing, or the element's text could not be read\<close>
  "failing q = (case q of Inl e \<Rightarrow> True | Inr None \<Rightarrow> True | Inr (Some el) \<Rightarrow> isl (InnerText el))"

definition extractionFails :: "message \<Rightarrow> bool" where
  \<comment> \<open>reading the author, the mention elements or the content of the message fails\<close>
  "extractionFails m \<longleftrightarrow>
     failing (usernameElement m) \<or> isl (mentionElements m) \<or> failing (contentElement m)"

definition failedCall :: "completion \<Rightarrow> bool" where
  \<comment> \<open>the failures for which \<open>askChatGPT\<close> has an error return\<close>
  "failedCall a =
     (case a of
        Response status b \<Rightarrow>
          status \<noteq> 200 \<or>
          (case unmarshal b of
             Inl e \<Rightarrow> True
           | Inr respData \<Rightarrow> (case extractContent respData of Err e \<Rightarrow> True | _ \<Rightarrow> False))
      | _ \<Rightarrow> True)"

section \<open>Example inputs\<close>

definition asciiOnly :: foldtable where
  \<comment> \<open>a case table that folds no rune beyond ASCII\<close>
  "asciiOnly lo hi = False"

definition botService :: service where
  "botService = \<lparr>seenMessages = Map.empty, botUsername = str ''Bot'', conversationHistory = []\<rparr>"

definition okBody :: "gostring \<Rightarrow> body" where
  \<comment> \<open>a chat completion response with the reply text \<open>c\<close>\<close>
  "okBody c =
     Parsed (JObject
       [(str ''id'', JString (str ''x'')),
        (str ''choices'', JArray [JObject
          [(str ''index'', JNumber ''0''),
           (str ''message'', JObject
             [(str ''role'', JString (str ''assistant'')), (str ''content'', JString c)])]])])"

definition badChoiceBody :: body where
  \<comment> \<open>the JSON text \<open>{"choices":[1]}\<close>\<close>
  "badChoiceBody = Parsed (JObject [(str ''choices'', JArray [JNumber ''1''])])"

definition workingBox :: textbox where
  "workingBox = Textbox None None None"

definition reply120 :: gostring where
  \<comment> \<open>a reply of 120 words with commas and periods\<close>
  "reply120 = concat (replicate 60 (str ''a, b. ''))"

definition mentionEntry :: "gostring \<Rightarrow> message" where
  \<comment> \<open>the entry with id m1, mention text Bot and content "@Bot hello."\<close>
  "mentionEntry author =
     \<lparr>idAttr = Inr (str ''m1''),
      usernameElement = Inr (Some (Element (Inr author))),
      replyContext = Inr None,
      mentionElements = Inr [Element (Inr (str ''Bot''))],
      contentElement = Inr (Some (Element (Inr (str ''@Bot hello.''))))\<rparr>"

definition strippedHello :: gostring where
  \<comment> \<open>the text "@ hello" followed by a line break\<close>
  "strippedHello = str ''@ hello'' @ [10]"

definition selfEntry :: message where
  \<comment> \<open>written by the bot itself, mentioning the bot, in reply to the bot\<close>
  "selfEntry =
     \<lparr>idAttr = Inr (str ''m2''),
      usernameElement = Inr (Some (Element (Inr (str '' @bot '')))),
      replyContext = Inr (Some (ReplyCtx (Inr (Some (Element (Inr (str ''Bot''))))))),
      mentionElements = Inr [Element (Inr (str ''@Bot''))],
      contentElement = Inr (Some (Element (Inr (str ''@Bot hello.''))))\<rparr>"

definition editedEntry :: message where
  \<comment> \<open>the entry m1 again, with other content\<close>
  "editedEntry =
     \<lparr>idAttr = Inr (str ''m1''),
      usernameElement = Inr (Some (Element (Inr (str ''alice'')))),
      replyContext = Inr None,
      mentionElements = Inr [Element (Inr (str ''@Bot''))],
      contentElement = Inr (Some (Element (Inr (str ''@Bot edited''))))\<rparr>"

definition oldEntry :: "string \<Rightarrow> message" where
  \<comment> \<open>an entry already on the page when the session starts\<close>
  "oldEntry i =
     \<lparr>idAttr = Inr (str i),
      usernameElement = Inr (Some (Element (Inr (str ''alice'')))),
      replyContext = Inr None,
      mentionElements = Inr [Element (Inr (str ''@Bot''))],
      contentElement = Inr (Some (Element (Inr (str ''@Bot old question''))))\<rparr>"

definition brokenEntry :: message where
  \<comment> \<open>the entry m1 while its author element is not rendered yet\<close>
  "brokenEntry =
     \<lparr>idAttr = Inr (str ''m1''),
      usernameElement = Inr None,
      replyContext = Inr None,
      mentionElements = Inr [Element (Inr (str ''@Bot''))],
      contentElement = Inr (Some (Element (Inr (str ''@Bot hello.''))))\<rparr>"

definition flakyMentionEntry :: message where
  \<comment> \<open>two mention elements; the text of the first one cannot be read\<close>
  "flakyMentionEntry =
     \<lparr>idAttr = Inr (str ''m3''),
      usernameElement = Inr (Some (Element (Inr (str ''alice'')))),
      replyContext = Inr None,
      mentionElements =
        Inr [Element (Inl (Cause ''element is not attached'')), Element (Inr (str ''@Bot''))],
      contentElement = Inr (Some (Element (Inr (str ''@Bot hello.''))))\<rparr>"

definition replyErrorEntry :: message where
  \<comment> \<open>mentions the bot, but the author of the message it replies to cannot be read\<close>
  "replyErrorEntry =
     \<lparr>idAttr = Inr (str ''m1''),
      usernameElement = Inr (Some (Element (Inr (str ''alice'')))),
      replyContext = Inr (Some (ReplyCtx (Inr (Some (Element (Inl (Cause ''element is not attached''))))))),
      mentionElements = Inr [Element (Inr (str ''@Bot''))],
      contentElement = Inr (Some (Element (Inr (str ''@Bot hello.''))))\<rparr>"

section \<open>The bounded conversation history\<close>

lemma lastN_append: "lastN n (lastN n xs @ ys) = lastN n (xs @ ys)"
proof (cases "length xs \<le> n")
  case True
  then show ?thesis by (simp add: lastN_def)
next
  case False
  then have "length xs + length ys - (length xs - n + n) + (length xs - n)
      = length xs + length ys - n"
    by arith
  then show ?thesis by (simp add: lastN_def)
qed

lemma history_commit:
  "conversationHistory (commit s p) = lastN 10 (conversationHistory s @ exchange p)"
  by (simp add: commit_def updateConversationHistory_def lastN_def exchange_def Let_def)

lemma history_foldl_commit:
  "length (conversationHistory s) \<le> 10 \<Longrightarrow>
   conversationHistory (foldl commit s ps) =
     lastN 10 (conversationHistory s @ concat (map exchange ps))"
proof (induction ps rule: rev_induct)
  case Nil
  then show ?case by (simp add: lastN_def)
next
  case (snoc p ps)
  then show ?case by (simp add: history_commit lastN_append)
qed

lemma length_exchanges: "length (concat (map exchange ps)) = 2 * length ps"
  by (induction ps) (simp_all add: exchange_def)

lemma drop_exchanges:
  "drop (2 * k) (concat (map exchange ps)) = concat (map exchange (drop k ps))"
proof (induction ps arbitrary: k)
  case Nil
  then show ?case by simp
next
  case (Cons p ps)
  then show ?case by (cases k) (simp_all add: exchange_def)
qed

lemma lastN_exchanges:
  "lastN 10 (concat (map exchange ps)) = concat (map exchange (drop (length ps - 5) ps))"
proof -
  have "2 * length ps - 10 = 2 * (length ps - 5)" by simp
  then show ?thesis by (simp add: lastN_def length_exchanges drop_exchanges)
qed

lemma commitAll_eq: "commitAll s ps = concat (map exchange (drop (length ps - 5) ps))"
  by (simp add: commitAll_def history_foldl_commit lastN_exchanges)

lemma roles_exchanges:
  "map role (concat (map exchange ps)) =
     concat (replicate (length ps) [str ''user'', str ''assistant''])"
  by (induction ps) (simp_all add: exchange_def userTurn_def assistantTurn_def)

text \<open>
  Claim C2. Starting from the empty history and committing any sequence \<open>ps\<close> of
  user/assistant exchanges, the stored history has at most 10 turns, has even length,
  alternates user and assistant turns, and is exactly the last five exchanges committed
  (all of them when there are fewer). A further commit on a full history drops the two
  oldest turns, the oldest exchange, and appends the new pair. After six commits the
  history holds the second to the sixth exchange, in order.
\<close>

theorem history_bound:
  "length (commitAll s ps) \<le> 10
   \<and> even (length (commitAll s ps))
   \<and> map role (commitAll s ps) =
       concat (replicate (min (length ps) 5) [str ''user'', str ''assistant''])
   \<and> commitAll s ps = concat (map exchange (drop (length ps - 5) ps))
   \<and> commitAll s (ps @ [p]) =
       (if length (commitAll s ps) = 10 then drop 2 (commitAll s ps) @ exchange p
        else commitAll s ps @ exchange p)
   \<and> commitAll s [p1, p2, p3, p4, p5, p6] =
       exchange p2 @ exchange p3 @ exchange p4 @ exchange p5 @ exchange p6"
proof -
  let ?h = "commitAll s ps"
  have h: "?h = concat (map exchange (drop (length ps - 5) ps))"
    by (rule commitAll_eq)
  have len: "length ?h = 2 * min (length ps) 5"
    by (simp add: h length_exchanges)
  have roles: "map role ?h = concat (replicate (min (length ps) 5) [str ''user'', str ''assistant''])"
  proof -
    have "length (drop (length ps - 5) ps) = min (length ps) 5" by auto
    then show ?thesis by (simp only: h roles_exchanges)
  qed
  have "commitAll s (ps @ [p]) = lastN 10 (?h @ exchange p)"
    by (simp add: commitAll_def history_commit)
  with len have step: "commitAll s (ps @ [p]) =
      (if length ?h = 10 then drop 2 ?h @ exchange p else ?h @ exchange p)"
    by (simp add: lastN_def exchange_def)
  have six: "commitAll s [p1, p2, p3, p4, p5, p6] =
      exchange p2 @ exchange p3 @ exchange p4 @ exchange p5 @ exchange p6"
    by (simp add: commitAll_eq)
  from len have "length ?h \<le> 10" "even (length ?h)" by simp_all
  with h roles step six show ?thesis by blast
qed

theorem history_bound_witness:
  "commitAll \<lparr>seenMessages = Map.empty, botUsername = str ''Bot'', conversationHistory = []\<rparr>
     [(str ''q1'', str ''a1''), (str ''q2'', str ''a2''), (str ''q3'', str ''a3''),
      (str ''q4'', str ''a4''), (str ''q5'', str ''a5''), (str ''q6'', str ''a6'')]
   = [userTurn (str ''q2''), assistantTurn (str ''a2''), userTurn (str ''q3''),
      assistantTurn (str ''a3''), userTurn (str ''q4''), assistantTurn (str ''a4''),
      userTurn (str ''q5''), assistantTurn (str ''a5''), userTurn (str ''q6''),
      assistantTurn (str ''a6'')]"
  using history_bound [of "\<lparr>seenMessages = Map.empty, botUsername = str ''Bot'', conversationHistory = []\<rparr>"
      "[]" "(str ''q1'', str ''a1'')" "(str ''q1'', str ''a1'')" "(str ''q2'', str ''a2'')"
      "(str ''q3'', str ''a3'')" "(str ''q4'', str ''a4'')" "(str ''q5'', str ''a5'')"
      "(str ''q6'', str ''a6'')"]
  by (simp add: exchange_def)

section \<open>Shaping the reply\<close>

text \<open>
  A field of \<open>strings.Fields\<close> is never empty and holds no white space, and splitting
  the join of such words gives the words back.
\<close>

lemma fieldsFrom_word:
  "list_all (\<lambda>c. \<not> isSpace c) w \<Longrightarrow> fieldsFrom cur (w @ rest) = fieldsFrom (cur @ w) rest"
  by (induction w arbitrary: cur) simp_all

lemma fieldsFrom_wordlike:
  "list_all (\<lambda>c. \<not> isSpace c) cur \<Longrightarrow> list_all wordlike (fieldsFrom cur s)"
  by (induction s arbitrary: cur) (simp_all add: wordlike_def)

lemma Fields_wordlike: "list_all wordlike (Fields s)"
  by (simp add: Fields_def fieldsFrom_wordlike)

lemma fieldsFrom_Join:
  "list_all wordlike ws \<Longrightarrow> fieldsFrom [] (Join ws (str '' '')) = ws"
proof (induction ws "str '' ''" rule: Join.induct)
  case 1
  then show ?case by simp
next
  case (2 w)
  then show ?case
    using fieldsFrom_word [of w "[]" "[]"] by (simp add: wordlike_def)
next
  case (3 w v ws)
  then show ?case
    using fieldsFrom_word [of w "[]" "str '' '' @ Join (v # ws) (str '' '')"]
    by (simp add: wordlike_def str_def isSpace_def)
qed

lemma Fields_Join: "list_all wordlike ws \<Longrightarrow> Fields (Join ws (str '' '')) = ws"
  by (simp add: Fields_def fieldsFrom_Join)

lemma list_all_take: "list_all P xs \<Longrightarrow> list_all P (take n xs)"
  by (induction xs arbitrary: n) (auto simp: take_Cons split: nat.splits)

lemma normalizeReply_long:
  "50 < length (Fields (punctuationConverted c)) \<Longrightarrow>
   normalizeReply c = Join (take 50 (Fields (punctuationConverted c))) (str '' '')"
  by (simp add: normalizeReply_def punctuationConverted_def Let_def)

lemma normalizeReply_short:
  "length (Fields (punctuationConverted c)) \<le> 50 \<Longrightarrow> normalizeReply c = punctuationConverted c"
  by (simp add: normalizeReply_def punctuationConverted_def Let_def)

lemma askChatGPT_Return:
  "unmarshal b = Inr respData \<Longrightarrow> extractContent respData = Return raw \<Longrightarrow>
   askChatGPT s msg (Response 200 b) =
     (Return (normalizeReply raw),
      updateConversationHistory s
        (userTurn (ReplaceAll (ReplaceAll msg (str '','') []) (str ''.'') [10]))
        (assistantTurn (normalizeReply raw)),
      [Request (requestMessages s (ReplaceAll (ReplaceAll msg (str '','') []) (str ''.'') [10]))])"
  by (simp add: askChatGPT_def Let_def)

text \<open>
  Claim C1. When the completion service answers with status 200 and a body whose
  \<open>choices[0].message.content\<close> is the text \<open>raw\<close>, and the trimmed, comma-stripped,
  period-to-linebreak-converted form of \<open>raw\<close> has more than 50 white-space separated
  words, then the reply \<open>askChatGPT\<close> returns has exactly 50 words, and they are the first
  50 words of the converted text, in order.
\<close>

theorem reply_truncation:
  assumes "unmarshal b = Inr respData"
    and "extractContent respData = Return raw"
    and "50 < length (Fields (punctuationConverted raw))"
  shows "fst (askChatGPT s msg (Response 200 b)) = Return (normalizeReply raw)
    \<and> length (Fields (normalizeReply raw)) = 50
    \<and> Fields (normalizeReply raw) = take 50 (Fields (punctuationConverted raw))"
proof -
  let ?ws = "Fields (punctuationConverted raw)"
  have "list_all wordlike (take 50 ?ws)"
    by (rule list_all_take) (rule Fields_wordlike)
  then have "Fields (Join (take 50 ?ws) (str '' '')) = take 50 ?ws"
    by (rule Fields_Join)
  with assms(3) have f: "Fields (normalizeReply raw) = take 50 ?ws"
    by (simp add: normalizeReply_long)
  from assms(3) have "length (take 50 ?ws) = 50" by simp
  with f assms(1,2) show ?thesis by (simp add: askChatGPT_Return)
qed

text \<open>
  The theorem at a reply of 120 words. \<open>replicate\<close> of a numeral is unfolded by halving.
\<close>

lemma replicate_Bit0:
  "replicate (numeral (Num.Bit0 k)) x = replicate (numeral k) x @ replicate (numeral k) x"
  by (simp only: numeral_Bit0 replicate_add)

lemma replicate_Bit1:
  "replicate (numeral (Num.Bit1 k)) x = (replicate (numeral k) x @ replicate (numeral k) x) @ [x]"
  by (simp only: numeral_Bit1 replicate_add replicate.simps One_nat_def)

lemma isSpace_examples:
  "isSpace 32" "isSpace 10" "\<not> isSpace 97" "\<not> isSpace 98" "\<not> isSpace 44" "\<not> isSpace 46"
  by (simp_all add: isSpace_def)

theorem reply_truncation_witness:
  "fst (askChatGPT botService (str ''hi'') (Response 200 (okBody reply120))) = Return (normalizeReply reply120)
    \<and> length (Fields (normalizeReply reply120)) = 50
    \<and> Fields (normalizeReply reply120) = take 50 (Fields (punctuationConverted reply120))"
proof -
  have u: "unmarshal (okBody reply120) =
      Inr [(str ''id'', JString (str ''x'')), (str ''choices'', JArray [JObject [(str ''index'', JNumber ''0''), (str ''message'',
     JObject [(str ''role'', JString (str ''assistant'')), (str ''content'', JString reply120)])]])]"
    by (simp add: okBody_def)
  have e: "extractContent [(str ''id'', JString (str ''x'')), (str ''choices'', JArray [JObject [(str ''index'', JNumber ''0''), (str ''message'',
     JObject [(str ''role'', JString (str ''assistant'')), (str ''content'', JString reply120)])]])] = Return reply120"
    by (simp add: extractContent_def member_def str_def)
  have w: "50 < length (Fields (punctuationConverted reply120))"
    by (simp add: reply120_def replicate_Bit0 replicate_Bit1 str_def punctuationConverted_def
        TrimSpace_def ReplaceAll_def Fields_def isSpace_examples rev_conv_fold del: rev.simps)
  from reply_truncation [OF u e w] show ?thesis .
qed

section \<open>Matching a name against the bot\<close>

text \<open>
  On ASCII names \<open>strings.EqualFold\<close> is equality after lower-casing the letters A to Z,
  whatever the Unicode case table says about other runes.
\<close>

lemma runeFoldEq_ascii:
  "sr < 128 \<Longrightarrow> tr < 128 \<Longrightarrow> runeFoldEq orbit sr tr = (asciiLower sr = asciiLower tr)"
  by (auto simp: runeFoldEq_def asciiLower_def Let_def min_def max_def)

lemma EqualFold_ascii:
  "list_all (\<lambda>r. r < 128) s \<Longrightarrow> list_all (\<lambda>r. r < 128) t \<Longrightarrow>
   EqualFold orbit s t = (map asciiLower s = map asciiLower t)"
proof (induction orbit s t rule: EqualFold.induct)
  case (1 orbit t)
  then show ?case by auto
next
  case (2 orbit sr s)
  then show ?case by simp
next
  case (3 orbit sr s tr t)
  then show ?case by (simp add: runeFoldEq_ascii)
qed

lemma mentionLoop_iff:
  "fst (mentionLoop orbit botName els) =
     (\<exists>t. Inr t \<in> InnerText ` set els \<and> nameMatches orbit botName t)"
proof (induction els)
  case Nil
  then show ?case by simp
next
  case (Cons el els)
  then show ?case
    by (cases "InnerText el") (auto split: prod.splits simp: image_iff)
qed

text \<open>
  Claim C5. The check of one mention text is: trim the white space, drop one leading
  \<open>@\<close>, compare with the bot name under case folding. The mention loop finds a match if
  and only if some mention element whose text can be read passes this check. For ASCII
  texts the comparison is equality of the lower-cased names. The mention texts \<open>@Foo\<close>,
  \<open>foo\<close> and \<open>FOO\<close> all match the bot name \<open>Foo\<close>.
\<close>

theorem mention_check:
  "nameMatches orbit botName t = EqualFold orbit (TrimPrefix (TrimSpace t) (str ''@'')) botName
   \<and> fst (mentionLoop orbit botName [Element (Inr t)]) = nameMatches orbit botName t
   \<and> fst (mentionLoop orbit botName els) =
       (\<exists>t. Inr t \<in> InnerText ` set els \<and> nameMatches orbit botName t)
   \<and> (list_all (\<lambda>r. r < 128) t \<and> list_all (\<lambda>r. r < 128) botName \<longrightarrow>
       nameMatches orbit botName t =
         (map asciiLower (TrimPrefix (TrimSpace t) (str ''@'')) = map asciiLower botName))
   \<and> nameMatches orbit (str ''Foo'') (str ''@Foo'')
   \<and> nameMatches orbit (str ''Foo'') (str ''foo'')
   \<and> nameMatches orbit (str ''Foo'') (str ''FOO'')"
proof -
  have ascii: "nameMatches orbit botName t =
         (map asciiLower (TrimPrefix (TrimSpace t) (str ''@'')) = map asciiLower botName)"
    if t: "list_all (\<lambda>r. r < 128) t" and b: "list_all (\<lambda>r. r < 128) botName"
  proof -
    have "list_all (\<lambda>r. r < 128) (TrimSpace t)"
      using t unfolding TrimSpace_def list_all_iff
      by (metis set_rev set_dropWhileD)
    then have "list_all (\<lambda>r. r < 128) (TrimPrefix (TrimSpace t) (str ''@''))"
      unfolding TrimPrefix_def list_all_iff by (auto dest: in_set_dropD)
    with b show ?thesis by (simp add: nameMatches_def EqualFold_ascii)
  qed
  have ex: "nameMatches orbit (str ''Foo'') (str ''@Foo'')"
    "nameMatches orbit (str ''Foo'') (str ''foo'')"
    "nameMatches orbit (str ''Foo'') (str ''FOO'')"
    by (simp_all add: nameMatches_def str_def TrimSpace_def TrimPrefix_def isSpace_def runeFoldEq_def)
  have one: "fst (mentionLoop orbit botName [Element (Inr t)]) = nameMatches orbit botName t"
    by simp
  from ascii ex one mentionLoop_iff [of orbit botName els] show ?thesis
    by (simp add: nameMatches_def)
qed

theorem mention_check_witness:
  "fst (mentionLoop asciiOnly (str ''Foo'') [Element (Inl (Cause ''detached'')), Element (Inr (str ''Bar'')), Element (Inr (str '' @fOO ''))])
   \<and> \<not> fst (mentionLoop asciiOnly (str ''Foo'') [Element (Inr (str ''@ Foo'')), Element (Inr (str ''Fo''))])
   \<and> nameMatches asciiOnly (str ''Foo'') (str ''@Foo'')"
proof -
  have a: "list_all (\<lambda>r. r < 128) (str '' @fOO '') \<and> list_all (\<lambda>r. r < 128) (str ''Foo'')"
    by (simp add: str_def)
  have b: "map asciiLower (TrimPrefix (TrimSpace (str '' @fOO '')) (str ''@'')) = map asciiLower (str ''Foo'')"
    by (simp add: str_def TrimSpace_def TrimPrefix_def isSpace_def asciiLower_def)
  from mention_check [of asciiOnly "str ''Foo''" "str '' @fOO ''" "[]"] a b
  have "nameMatches asciiOnly (str ''Foo'') (str '' @fOO '')" 
    and "nameMatches asciiOnly (str ''Foo'') (str ''@Foo'')" by blast+
  moreover have "\<not> nameMatches asciiOnly (str ''Foo'') (str ''Bar'')"
    "\<not> nameMatches asciiOnly (str ''Foo'') (str ''@ Foo'')"
    "\<not> nameMatches asciiOnly (str ''Foo'') (str ''Fo'')"
    by (simp_all add: nameMatches_def str_def TrimSpace_def TrimPrefix_def isSpace_def runeFoldEq_def asciiOnly_def)
  ultimately show ?thesis by simp
qed

section \<open>What handling one message does to the service\<close>

lemma onlyLogs_quiet: "onlyLogs evs \<Longrightarrow> quiet evs"
proof (induction evs)
  case Nil
  then show ?case by (simp add: quiet_def)
next
  case (Cons ev evs)
  then show ?case by (cases ev) (simp_all add: quiet_def onlyLogs_def)
qed

lemma onlyLogs_append [simp]: "onlyLogs (xs @ ys) = (onlyLogs xs \<and> onlyLogs ys)"
  by (simp add: onlyLogs_def)

lemma onlyLogs_mentionLoop: "onlyLogs (snd (mentionLoop orbit b els))"
  by (induction els) (auto simp: onlyLogs_def split: sum.splits prod.splits)

lemma after_Nil [simp]: "after [] p = p"
  by (cases p) simp_all

lemma after_Next: "after logs p = Next s' evs \<Longrightarrow> \<exists>evs'. p = Next s' evs' \<and> evs = logs @ evs'"
  by (cases p) auto

lemma askChatGPT_seen [simp]: "seenMessages (fst (snd (askChatGPT s msg a))) = seenMessages s"
  by (auto simp: askChatGPT_def updateConversationHistory_def Let_def
      split: completion.splits sum.splits go.splits)

lemma askChatGPT_bot [simp]: "botUsername (fst (snd (askChatGPT s msg a))) = botUsername s"
  by (auto simp: askChatGPT_def updateConversationHistory_def Let_def
      split: completion.splits sum.splits go.splits)

lemma askChatGPT_Err:
  "fst (askChatGPT s msg a) = Err e \<Longrightarrow> fst (snd (askChatGPT s msg a)) = s"
  by (auto simp: askChatGPT_def Let_def split: completion.splits sum.splits go.splits if_splits)

lemma respond_seen:
  "respond s m els rx = Next s' evs \<Longrightarrow> seenMessages s' = seenMessages s \<and> botUsername s' = botUsername s"
  unfolding respond_def Let_def
  by (auto split: sum.splits option.splits prod.splits go.splits
      dest: arg_cong [where f = "\<lambda>r. seenMessages (fst (snd r))"] arg_cong [where f = "\<lambda>r. botUsername (fst (snd r))"])

lemma classify_seen:
  "classify orbit s m rx = Next s' evs \<Longrightarrow> seenMessages s' = seenMessages s \<and> botUsername s' = botUsername s"
  unfolding classify_def
  by (auto split: sum.splits prod.splits if_splits dest!: after_Next respond_seen)

lemma processMessage_seen:
  assumes "processMessage orbit s (m, rx) = Next s' evs"
  shows "botUsername s' = botUsername s \<and>
    seenMessages s' =
      (case idAttr m of
         Inl e \<Rightarrow> seenMessages s
       | Inr i \<Rightarrow> if i \<noteq> [] \<and> \<not> seen s i then (seenMessages s)(i \<mapsto> True) else seenMessages s)"
  using assms unfolding processMessage_def Let_def
  by (auto split: sum.splits option.splits if_splits dest!: classify_seen)

lemma seen_skip: "seen s i \<Longrightarrow> idAttr m = Inr i \<Longrightarrow> processMessage orbit s (m, rx) = Next s []"
  by (auto simp: processMessage_def seen_def)

lemma seen_mono_step:
  "processMessage orbit s mr = Next s' evs \<Longrightarrow> seen s i \<Longrightarrow> seen s' i"
  by (cases mr) (auto dest!: processMessage_seen simp: seen_def split: sum.splits if_splits)

lemma fresh_marked:
  "processMessage orbit s (m, rx) = Next s' evs \<Longrightarrow> idAttr m = Inr i \<Longrightarrow> i \<noteq> [] \<Longrightarrow> seen s' i"
  by (cases "seen s i") (auto dest!: processMessage_seen simp: seen_def)

lemma seen_mono_batch:
  "processMessages orbit s ms = Next s' evs \<Longrightarrow> seen s i \<Longrightarrow> seen s' i"
proof (induction ms arbitrary: s evs)
  case Nil
  then show ?case by simp
next
  case (Cons mr ms)
  then show ?case
    by (auto split: progress.splits dest!: after_Next dest: seen_mono_step)
qed

lemma batch_withoutId:
  "seen s i \<Longrightarrow> processMessages orbit s (withoutId i ms) = processMessages orbit s ms"
proof (induction ms arbitrary: s)
  case Nil
  then show ?case by (simp add: withoutId_def)
next
  case (Cons mr ms)
  obtain m rx where mr: "mr = (m, rx)" by (cases mr)
  show ?case
  proof (cases "idAttr m = Inr i")
    case True
    with Cons show ?thesis by (simp add: mr withoutId_def seen_skip)
  next
    case False
    have "\<And>s' evs. processMessage orbit s mr = Next s' evs \<Longrightarrow>
        processMessages orbit s' (withoutId i ms) = processMessages orbit s' ms"
      using Cons.IH Cons.prems seen_mono_step by blast
    with False show ?thesis
      by (simp add: mr withoutId_def split: progress.splits)
  qed
qed

lemma watchLoop_withoutId:
  "seen s i \<Longrightarrow> watchLoop orbit s (map (tickWithoutId i) ticks) = watchLoop orbit s ticks"
proof (induction orbit s ticks rule: watchLoop.induct)
  case (4 orbit s messages ticks)
  show ?case
  proof (cases "processMessages orbit s messages")
    case (Next s' evs)
    with "4.prems" have "seen s' i" by (rule seen_mono_batch [rotated])
    with Next "4.IH" "4.prems" show ?thesis by (simp add: batch_withoutId)
  next
    case (Crash evs)
    with "4.prems" show ?thesis by (simp add: batch_withoutId)
  qed
qed simp_all

lemma seen_mono_loop:
  "seen s i \<Longrightarrow> seen (fst (snd (watchLoop orbit s ticks))) i"
proof (induction orbit s ticks rule: watchLoop.induct)
  case (4 orbit s messages ticks)
  show ?case
  proof (cases "processMessages orbit s messages")
    case (Next s' evs)
    with "4.prems" have "seen s' i" by (rule seen_mono_batch [rotated])
    with Next "4.IH" show ?thesis by (auto split: prod.splits)
  next
    case (Crash evs)
    with "4.prems" show ?thesis by simp
  qed
qed simp_all

section \<open>Entries written by the bot\<close>

text \<open>
  Claim C4. An entry whose author name, after trimming white space and one leading \<open>@\<close>,
  equals the bot name under case folding is passed over whatever its mentions, its reply
  target, its content and the outside's reactions are: if its id is new it is marked seen
  and nothing else happens, so there is no completion call, nothing is typed, and the
  history stays as it was.
\<close>

theorem self_exclusion:
  assumes "usernameElement m = Inr (Some (Element (Inr author)))"
    and "nameMatches orbit (botUsername s) author"
  shows "processMessage orbit s (m, rx) =
      (case idAttr m of
         Inl e \<Rightarrow> Next s [LogError ''Failed to get message ID'']
       | Inr i \<Rightarrow> if i = [] \<or> seen s i then Next s [] else Next (markSeen s i) [])
    \<and> skipped s (processMessage orbit s (m, rx))"
  using assms
  by (auto simp: processMessage_def skipped_def markSeen_def onlyLogs_def split: sum.splits)

theorem self_exclusion_witness:
  "processMessage asciiOnly botService
     (selfEntry, \<lparr>completion = Response 200 (okBody (str ''hi'')), textbox = Textbox None None None\<rparr>)
   = Next (markSeen botService (str ''m2'')) []"
proof -
  have u: "usernameElement selfEntry = Inr (Some (Element (Inr (str '' @bot ''))))"
    by (simp add: selfEntry_def)
  have n: "nameMatches asciiOnly (botUsername botService) (str '' @bot '')"
    by (simp add: botService_def nameMatches_def str_def TrimSpace_def TrimPrefix_def isSpace_def runeFoldEq_def)
  from self_exclusion [OF u n] show ?thesis
    by (simp add: selfEntry_def botService_def seen_def str_def)
qed

section \<open>The mention scenario\<close>

lemma requestMessages_last: "last (requestMessages s c) = userTurn c"
  by (simp add: requestMessages_def userTurn_def)

lemma mentionEntry_clean:
  "TrimSpace (stripMentions (TrimSpace (str ''@Bot hello.'')) [Element (Inr (str ''Bot''))]) = str ''@ hello.''"
  by (simp add: str_def TrimSpace_def isSpace_def ReplaceAll_def)

lemma strippedHello_converted:
  "ReplaceAll (ReplaceAll (str ''@ hello.'') (str '','') []) (str ''.'') [10] = strippedHello"
  by (simp add: str_def ReplaceAll_def strippedHello_def)

lemma mentionEntry_respond:
  assumes "unmarshal b = Inr respData" and "extractContent respData = Return raw"
  shows "respond s (mentionEntry author) [Element (Inr (str ''Bot''))] \<lparr>completion = Response 200 b, textbox = tb\<rparr> =
     Next (updateConversationHistory s (userTurn strippedHello) (assistantTurn (normalizeReply raw)))
       ([Println [str ''Detected message to bot:'', str ''@Bot hello.''],
         Request (requestMessages s strippedHello),
         Println [str ''ChatGPT response:'', normalizeReply raw]]
        @ snd (typeInChat (normalizeReply raw) tb)
        @ (case fst (typeInChat (normalizeReply raw) tb) of None \<Rightarrow> [] | Some e \<Rightarrow> [LogError ''Failed to reply in chat'']))"
proof -
  have t: "TrimSpace (str ''@Bot hello.'') = str ''@Bot hello.''"
    by (simp add: str_def TrimSpace_def isSpace_def)
  show ?thesis
    unfolding respond_def Let_def
    using mentionEntry_clean
    by (simp add: mentionEntry_def askChatGPT_Return [OF assms] strippedHello_converted t
        split: prod.splits option.splits)
qed

text \<open>
  Claim C3, as the code has it. For the new entry with id m1, mention text \<open>Bot\<close> and
  content \<open>@Bot hello.\<close>, written by someone other than the bot \<open>Bot\<close>, and a completion
  that succeeds with the reply text \<open>raw\<close>: exactly one completion request is made. Its
  last turn is the user turn with content \<open>@ hello\<close> followed by a line break: the
  literal mention text \<open>Bot\<close> is removed, which leaves the \<open>@\<close>, the white space is
  trimmed, and \<open>askChatGPT\<close> removes commas and turns the period into a line break.
  \<open>typeInChat\<close> is then called once with the shaped reply; a text box that accepts the
  actions receives one click, the reply and one Enter.
\<close>

theorem mention_trigger:
  assumes "\<not> nameMatches orbit (str ''Bot'') author"
    and "botUsername s = str ''Bot''"
    and "\<not> seen s (str ''m1'')"
    and "unmarshal b = Inr respData"
    and "extractContent respData = Return raw"
  shows "processMessage orbit s (mentionEntry author, \<lparr>completion = Response 200 b, textbox = tb\<rparr>) =
     Next (updateConversationHistory (markSeen s (str ''m1'')) (userTurn strippedHello) (assistantTurn (normalizeReply raw)))
       ([Println [str ''Detected message to bot:'', str ''@Bot hello.''],
         Request (requestMessages s strippedHello),
         Println [str ''ChatGPT response:'', normalizeReply raw]]
        @ snd (typeInChat (normalizeReply raw) tb)
        @ (case fst (typeInChat (normalizeReply raw) tb) of None \<Rightarrow> [] | Some e \<Rightarrow> [LogError ''Failed to reply in chat'']))
    \<and> last (requestMessages s strippedHello) = userTurn strippedHello
    \<and> typeInChat (normalizeReply raw) workingBox = (None, [Click, Type (normalizeReply raw), Press ''Enter''])"
proof -
  have m: "mentionLoop orbit (str ''Bot'') [Element (Inr (str ''Bot''))] = (True, [])"
    by (simp add: nameMatches_def str_def TrimSpace_def TrimPrefix_def isSpace_def runeFoldEq_def)
  have r: "requestMessages (markSeen s (str ''m1'')) strippedHello = requestMessages s strippedHello"
    by (simp add: requestMessages_def markSeen_def)
  have c: "classify orbit (markSeen s (str ''m1'')) (mentionEntry author) \<lparr>completion = Response 200 b, textbox = tb\<rparr> =
      respond (markSeen s (str ''m1'')) (mentionEntry author) [Element (Inr (str ''Bot''))] \<lparr>completion = Response 200 b, textbox = tb\<rparr>"
    using assms(2) m
    by (simp add: classify_def isReplyToBot_def mentionEntry_def markSeen_def)
  have i: "str ''m1'' \<noteq> []" by (simp add: str_def)
  have p: "processMessage orbit s (mentionEntry author, \<lparr>completion = Response 200 b, textbox = tb\<rparr>) =
      classify orbit (markSeen s (str ''m1'')) (mentionEntry author) \<lparr>completion = Response 200 b, textbox = tb\<rparr>"
    using assms(1,2,3) i
    by (simp add: processMessage_def Let_def markSeen_def [symmetric]) (simp add: mentionEntry_def markSeen_def)
  show ?thesis
    by (simp only: p c mentionEntry_respond [OF assms(4,5)] r requestMessages_last)
       (simp add: typeInChat_def workingBox_def)
qed

theorem mention_trigger_witness:
  "userContents (effects (processMessage asciiOnly botService
      (mentionEntry (str ''alice''), \<lparr>completion = Response 200 (okBody (str ''Hi, there.'')), textbox = workingBox\<rparr>)))
   = [strippedHello]
   \<and> filter isInjection (effects (processMessage asciiOnly botService
      (mentionEntry (str ''alice''), \<lparr>completion = Response 200 (okBody (str ''Hi, there.'')), textbox = workingBox\<rparr>)))
   = [Click, Type (str ''Hi there'' @ [10]), Press ''Enter'']"
proof -
  have a: "\<not> nameMatches asciiOnly (str ''Bot'') (str ''alice'')"
    by (simp add: nameMatches_def str_def TrimSpace_def TrimPrefix_def isSpace_def runeFoldEq_def asciiOnly_def)
  have b: "botUsername botService = str ''Bot''" by (simp add: botService_def)
  have c: "\<not> seen botService (str ''m1'')" by (simp add: botService_def seen_def)
  have u: "unmarshal (okBody (str ''Hi, there.'')) =
      Inr [(str ''id'', JString (str ''x'')), (str ''choices'', JArray [JObject [(str ''index'', JNumber ''0''), (str ''message'',
     JObject [(str ''role'', JString (str ''assistant'')), (str ''content'', JString (str ''Hi, there.''))])]])]"
    by (simp add: okBody_def)
  have e: "extractContent [(str ''id'', JString (str ''x'')), (str ''choices'', JArray [JObject [(str ''index'', JNumber ''0''), (str ''message'',
     JObject [(str ''role'', JString (str ''assistant'')), (str ''content'', JString (str ''Hi, there.''))])]])] = Return (str ''Hi, there.'')"
    by (simp add: extractContent_def member_def str_def)
  have n: "normalizeReply (str ''Hi, there.'') = str ''Hi there'' @ [10]"
    by (simp add: normalizeReply_def str_def TrimSpace_def isSpace_def ReplaceAll_def Fields_def Let_def)
  from mention_trigger [OF a b c u e, of workingBox] show ?thesis
    by (simp add: n userTurn_def)
qed

text \<open>
  The user turn of that request is not \<open>hello\<close>.
\<close>

theorem mention_trigger_counterexample:
  "userContents (effects (processMessage asciiOnly botService
      (mentionEntry (str ''alice''),
       \<lparr>completion = Response 200 (okBody (str ''Hi, there.'')), textbox = workingBox\<rparr>)))
   = [str ''@ hello'' @ [10]]
   \<and> str ''@ hello'' @ [10] \<noteq> str ''hello''"
  by (simp add: processMessage_def classify_def respond_def askChatGPT_def isReplyToBot_def
      mentionEntry_def botService_def okBody_def workingBox_def seen_def extractContent_def member_def
      nameMatches_def str_def TrimSpace_def TrimPrefix_def isSpace_def runeFoldEq_def asciiOnly_def
      ReplaceAll_def Let_def typeInChat_def requestMessages_def)

section \<open>A failed completion call\<close>

text \<open>
  For a failed request, a failed read of the body, a status other than 200, a body that
  does not decode to an object, and a decoded body without \<open>choices[0].message.content\<close>
  whose first choice is an object, \<open>askChatGPT\<close> returns an error and leaves the service
  as it was, and the message is left unanswered.
\<close>

lemma askChatGPT_failure:
  assumes "failedCall a"
  shows "\<exists>e evs. askChatGPT s msg a = (Err e, s, evs) \<and> filter isInjection evs = []"
  using assms
  by (cases a) (auto simp: failedCall_def askChatGPT_def Let_def split: sum.splits go.splits)

lemma askChatGPT_Err_state: "askChatGPT s msg a = (Err e, s', evs) \<Longrightarrow> s' = s"
  by (auto simp: askChatGPT_def Let_def split: completion.splits sum.splits go.splits if_splits)

lemma askChatGPT_events: "filter isInjection (snd (snd (askChatGPT s msg a))) = []"
  by (auto simp: askChatGPT_def Let_def split: completion.splits sum.splits go.splits if_splits)

lemma respond_failure:
  assumes "failedCall (completion rx)"
  shows "\<exists>evs. respond s m els rx = Next s evs \<and> filter isInjection evs = []"
proof (cases "contentElement m")
  case (Inl e)
  then show ?thesis by (simp add: respond_def)
next
  case (Inr q)
  show ?thesis
  proof (cases q)
    case None
    with Inr show ?thesis by (simp add: respond_def)
  next
    case (Some el)
    show ?thesis
    proof (cases "InnerText el")
      case (Inl e)
      with Inr Some show ?thesis by (simp add: respond_def)
    next
      case inner: (Inr raw)
      from askChatGPT_failure [OF assms]
      obtain e evs where "askChatGPT s (TrimSpace (stripMentions (TrimSpace raw) els)) (completion rx) = (Err e, s, evs)"
        and "filter isInjection evs = []" by blast
      with Inr Some inner show ?thesis by (simp add: respond_def Let_def)
    qed
  qed
qed

text \<open>
  Claim C6 at the body \<open>{"choices":[1]}\<close>, which lacks \<open>choices[0].message.content\<close>:
  \<open>askChatGPT\<close> does not return an error, the unchecked type assertion on the first choice
  panics after the request was sent, and the watch loop ends in the panic instead of going
  on to the next entry.
\<close>

theorem completion_panic:
  "askChatGPT s msg (Response 200 badChoiceBody) =
     (Panic, s, [Request (requestMessages s (ReplaceAll (ReplaceAll msg (str '','') []) (str ''.'') [10]))])
   \<and> processMessage asciiOnly botService
        (mentionEntry (str ''alice''), \<lparr>completion = Response 200 badChoiceBody, textbox = workingBox\<rparr>) =
      Crash [Println [str ''Detected message to bot:'', str ''@Bot hello.''], Request (requestMessages botService strippedHello)]
   \<and> fst (watchLoop asciiOnly botService
        [Poll (Inr [(mentionEntry (str ''alice''), \<lparr>completion = Response 200 badChoiceBody, textbox = workingBox\<rparr>)])]) = Panicked"
proof -
  have x: "extractContent [(str ''choices'', JArray [JNumber ''1''])] = Panic"
    by (simp add: extractContent_def member_def)
  have a: "\<And>s msg. askChatGPT s msg (Response 200 badChoiceBody) =
     (Panic, s, [Request (requestMessages s (ReplaceAll (ReplaceAll msg (str '','') []) (str ''.'') [10]))])"
    by (simp add: askChatGPT_def badChoiceBody_def x Let_def)
  have t: "TrimSpace (str ''@Bot hello.'') = str ''@Bot hello.''"
    by (simp add: str_def TrimSpace_def isSpace_def)
  have r: "\<And>s. respond s (mentionEntry (str ''alice'')) [Element (Inr (str ''Bot''))]
        \<lparr>completion = Response 200 badChoiceBody, textbox = workingBox\<rparr> =
      Crash [Println [str ''Detected message to bot:'', str ''@Bot hello.''], Request (requestMessages s strippedHello)]"
    unfolding respond_def Let_def using mentionEntry_clean
    by (simp add: mentionEntry_def a strippedHello_converted t)
  have n: "\<not> nameMatches asciiOnly (str ''Bot'') (str ''alice'')"
    "nameMatches asciiOnly (str ''Bot'') (str ''Bot'')"
    by (simp_all add: nameMatches_def str_def TrimSpace_def TrimPrefix_def isSpace_def runeFoldEq_def asciiOnly_def)
  have i: "str ''m1'' \<noteq> []" by (simp add: str_def)
  have c: "classify asciiOnly (markSeen botService (str ''m1'')) (mentionEntry (str ''alice''))
        \<lparr>completion = Response 200 badChoiceBody, textbox = workingBox\<rparr> =
      Crash [Println [str ''Detected message to bot:'', str ''@Bot hello.''], Request (requestMessages botService strippedHello)]"
    using n(2) r [of "markSeen botService (str ''m1'')"]
    by (simp add: classify_def isReplyToBot_def) (simp add: mentionEntry_def markSeen_def botService_def requestMessages_def)
  have p: "processMessage asciiOnly botService
        (mentionEntry (str ''alice''), \<lparr>completion = Response 200 badChoiceBody, textbox = workingBox\<rparr>) =
      Crash [Println [str ''Detected message to bot:'', str ''@Bot hello.''], Request (requestMessages botService strippedHello)]"
    using n(1) i c
    by (simp add: processMessage_def Let_def markSeen_def [symmetric])
       (simp add: mentionEntry_def botService_def seen_def markSeen_def)
  from a p show ?thesis by simp
qed

section \<open>Entries seen before\<close>

text \<open>
  Claim C7. Once an id is in the seen set, an entry with this id does nothing at all,
  whatever its other attributes have become: handling it leaves the service unchanged and
  has no effect, a poll and a whole run of the watch loop go exactly as they do without the
  entries of this id, and the id stays in the seen set through every poll.
\<close>

theorem dedup_idempotent:
  assumes "seen s i"
  shows "(idAttr m = Inr i \<longrightarrow> processMessage orbit s (m, rx) = Next s [])
    \<and> processMessages orbit s (withoutId i ms) = processMessages orbit s ms
    \<and> watchLoop orbit s (map (tickWithoutId i) ticks) = watchLoop orbit s ticks
    \<and> (\<forall>s' evs. processMessages orbit s ms = Next s' evs \<longrightarrow> seen s' i)
    \<and> seen (fst (snd (watchLoop orbit s ticks))) i"
  using assms
  by (auto simp: seen_skip batch_withoutId watchLoop_withoutId seen_mono_loop dest: seen_mono_batch)

theorem dedup_idempotent_witness:
  "seen (markSeen botService (str ''m1'')) (str ''m1'')
   \<and> processMessage asciiOnly (markSeen botService (str ''m1''))
        (editedEntry, \<lparr>completion = Response 200 (okBody (str ''hi'')), textbox = workingBox\<rparr>)
      = Next (markSeen botService (str ''m1'')) []"
proof -
  have s: "seen (markSeen botService (str ''m1'')) (str ''m1'')"
    by (simp add: seen_def markSeen_def)
  have i: "idAttr editedEntry = Inr (str ''m1'')" by (simp add: editedEntry_def)
  from dedup_idempotent [OF s, of editedEntry asciiOnly _ "[]" "[]"] s i show ?thesis by simp
qed

section \<open>The initial pass\<close>

lemma seedSeen_fields:
  "botUsername (fst (seedSeen s ms)) = botUsername s
   \<and> conversationHistory (fst (seedSeen s ms)) = conversationHistory s
   \<and> onlyLogs (snd (seedSeen s ms))"
  by (induction s ms rule: seedSeen.induct) (auto simp: onlyLogs_def split: sum.splits prod.splits)

lemma visibleIds_Cons:
  "visibleIds (m # ms) =
     (case idAttr m of Inl e \<Rightarrow> [] | Inr i \<Rightarrow> if i = [] then [] else [i]) @ visibleIds ms"
  by (simp add: visibleIds_def)

lemma seen_update:
  "seen (s\<lparr>seenMessages := (seenMessages s)(j \<mapsto> True)\<rparr>) i \<longleftrightarrow> i = j \<or> seen s i"
  by (simp add: seen_def)

lemma seedSeen_seen:
  "seen (fst (seedSeen s ms)) i \<longleftrightarrow> seen s i \<or> i \<in> set (visibleIds ms)"
proof (induction ms arbitrary: s)
  case Nil
  then show ?case by (simp add: visibleIds_def)
next
  case (Cons m ms)
  show ?case
  proof (cases "idAttr m")
    case (Inl e)
    with Cons [of s] show ?thesis
      by (auto simp: visibleIds_Cons split: prod.splits)
  next
    case (Inr j)
    with Cons [of s] Cons [of "s\<lparr>seenMessages := (seenMessages s)(j \<mapsto> True)\<rparr>"]
    show ?thesis
      by (auto simp: visibleIds_Cons seen_update)
  qed
qed

text \<open>
  Claim C8. When the page lists its messages, \<open>initializeSeenMessages\<close> adds to the
  seen set the id of every message whose id can be read and is not empty; it only logs, and
  it leaves the history alone. \<open>ReadMessages\<close> starts from the empty seen set, so after
  its initial pass the seen set is exactly these ids and no completion call was made and
  nothing was typed. With three entries on the page, all three ids are seen and no
  request was issued.
\<close>

theorem initial_pass:
  "initializeSeenMessages s (Inr ms) = (None, fst (seedSeen s ms), snd (seedSeen s ms))
   \<and> (seen (fst (seedSeen s ms)) i \<longleftrightarrow> seen s i \<or> i \<in> set (visibleIds ms))
   \<and> onlyLogs (snd (seedSeen s ms))
   \<and> conversationHistory (fst (seedSeen s ms)) = conversationHistory s
   \<and> fst (ReadMessages orbit s (Inr ms) []) = Looping
   \<and> (seen (fst (snd (ReadMessages orbit s (Inr ms) []))) i \<longleftrightarrow> i \<in> set (visibleIds ms))
   \<and> quiet (snd (snd (ReadMessages orbit s (Inr ms) [])))
   \<and> (idAttr m1 = Inr i1 \<and> idAttr m2 = Inr i2 \<and> idAttr m3 = Inr i3 \<and> i1 \<noteq> [] \<and> i2 \<noteq> [] \<and> i3 \<noteq> [] \<longrightarrow>
        seen (fst (snd (ReadMessages orbit s (Inr [m1, m2, m3]) []))) i1
      \<and> seen (fst (snd (ReadMessages orbit s (Inr [m1, m2, m3]) []))) i2
      \<and> seen (fst (snd (ReadMessages orbit s (Inr [m1, m2, m3]) []))) i3
      \<and> filter isRequest (snd (snd (ReadMessages orbit s (Inr [m1, m2, m3]) []))) = [])"
proof -
  have rm: "\<And>ms. ReadMessages orbit s (Inr ms) [] =
      (Looping, fst (seedSeen (s\<lparr>seenMessages := Map.empty\<rparr>) ms),
       Println [str ''Initializing seen messages...''] # snd (seedSeen (s\<lparr>seenMessages := Map.empty\<rparr>) ms)
         @ [Println [str ''Starting to read new messages...'']])"
    by (simp add: ReadMessages_def initializeSeenMessages_def Let_def split: prod.splits)
  have sn: "\<And>ms i. seen (fst (snd (ReadMessages orbit s (Inr ms) []))) i \<longleftrightarrow> i \<in> set (visibleIds ms)"
    by (simp add: rm seedSeen_seen) (simp add: seen_def)
  have q: "\<And>ms. quiet (snd (snd (ReadMessages orbit s (Inr ms) [])))"
  proof -
    fix ms
    have "quiet (snd (seedSeen (s\<lparr>seenMessages := Map.empty\<rparr>) ms))"
      using seedSeen_fields onlyLogs_quiet by blast
    then show "quiet (snd (snd (ReadMessages orbit s (Inr ms) [])))"
      by (simp add: rm quiet_def)
  qed
  have c1: "initializeSeenMessages s (Inr ms) = (None, fst (seedSeen s ms), snd (seedSeen s ms))"
    by (simp add: initializeSeenMessages_def split: prod.splits)
  have c2: "seen (fst (seedSeen s ms)) i \<longleftrightarrow> seen s i \<or> i \<in> set (visibleIds ms)"
    by (rule seedSeen_seen)
  have c3: "onlyLogs (snd (seedSeen s ms))" and c4: "conversationHistory (fst (seedSeen s ms)) = conversationHistory s"
    using seedSeen_fields [of s ms] by simp_all
  have c5: "fst (ReadMessages orbit s (Inr ms) []) = Looping" by (simp add: rm)
  have c8: "idAttr m1 = Inr i1 \<and> idAttr m2 = Inr i2 \<and> idAttr m3 = Inr i3 \<and> i1 \<noteq> [] \<and> i2 \<noteq> [] \<and> i3 \<noteq> [] \<longrightarrow>
        seen (fst (snd (ReadMessages orbit s (Inr [m1, m2, m3]) []))) i1
      \<and> seen (fst (snd (ReadMessages orbit s (Inr [m1, m2, m3]) []))) i2
      \<and> seen (fst (snd (ReadMessages orbit s (Inr [m1, m2, m3]) []))) i3
      \<and> filter isRequest (snd (snd (ReadMessages orbit s (Inr [m1, m2, m3]) []))) = []"
  proof (intro impI)
    assume a: "idAttr m1 = Inr i1 \<and> idAttr m2 = Inr i2 \<and> idAttr m3 = Inr i3 \<and> i1 \<noteq> [] \<and> i2 \<noteq> [] \<and> i3 \<noteq> []"
    then have "visibleIds [m1, m2, m3] = [i1, i2, i3]"
      by (simp add: visibleIds_def)
    with q [of "[m1, m2, m3]"] show "seen (fst (snd (ReadMessages orbit s (Inr [m1, m2, m3]) []))) i1
      \<and> seen (fst (snd (ReadMessages orbit s (Inr [m1, m2, m3]) []))) i2
      \<and> seen (fst (snd (ReadMessages orbit s (Inr [m1, m2, m3]) []))) i3
      \<and> filter isRequest (snd (snd (ReadMessages orbit s (Inr [m1, m2, m3]) []))) = []"
      by (simp add: sn quiet_def)
  qed
  from c1 c2 c3 c4 c5 sn [of ms i] q [of ms] c8 show ?thesis by blast
qed

theorem initial_pass_witness:
  "seen (fst (snd (ReadMessages asciiOnly botService (Inr [oldEntry ''a1'', oldEntry ''a2'', oldEntry ''a3'']) []))) (str ''a1'')
   \<and> seen (fst (snd (ReadMessages asciiOnly botService (Inr [oldEntry ''a1'', oldEntry ''a2'', oldEntry ''a3'']) []))) (str ''a2'')
   \<and> seen (fst (snd (ReadMessages asciiOnly botService (Inr [oldEntry ''a1'', oldEntry ''a2'', oldEntry ''a3'']) []))) (str ''a3'')
   \<and> filter isRequest (snd (snd (ReadMessages asciiOnly botService (Inr [oldEntry ''a1'', oldEntry ''a2'', oldEntry ''a3'']) []))) = []"
proof -
  have h: "idAttr (oldEntry ''a1'') = Inr (str ''a1'') \<and> idAttr (oldEntry ''a2'') = Inr (str ''a2'')
      \<and> idAttr (oldEntry ''a3'') = Inr (str ''a3'') \<and> str ''a1'' \<noteq> [] \<and> str ''a2'' \<noteq> [] \<and> str ''a3'' \<noteq> []"
    by (simp add: oldEntry_def str_def)
  from initial_pass [of botService "[]" "[]" asciiOnly "oldEntry ''a1''" "str ''a1''" "oldEntry ''a2''" "str ''a2''"
      "oldEntry ''a3''" "str ''a3''"] h
  show ?thesis by blast
qed

section \<open>Entries whose attributes cannot be read\<close>

lemma respond_content_fails:
  "failing (contentElement m) \<Longrightarrow> \<exists>evs. respond s m els rx = Next s evs \<and> onlyLogs evs"
  by (auto simp: failing_def respond_def onlyLogs_def isl_def split: sum.splits option.splits)

lemma classify_fails:
  assumes "isl (mentionElements m) \<or> failing (contentElement m)"
  shows "\<exists>evs. classify orbit s m rx = Next s evs \<and> onlyLogs evs"
proof (cases "isReplyToBot orbit s m")
  case (Inl e)
  then show ?thesis by (simp add: classify_def onlyLogs_def)
next
  case reply: (Inr isReply)
  show ?thesis
  proof (cases "mentionElements m")
    case (Inl e)
    with reply show ?thesis by (simp add: classify_def onlyLogs_def)
  next
    case (Inr els)
    with assms have c: "failing (contentElement m)" by simp
    obtain isMentioned logs where l: "mentionLoop orbit (botUsername s) els = (isMentioned, logs)"
      by (cases "mentionLoop orbit (botUsername s) els")
    with onlyLogs_mentionLoop [of orbit "botUsername s" els] have logs: "onlyLogs logs" by simp
    from respond_content_fails [OF c] obtain evs where
      "respond s m els rx = Next s evs" and "onlyLogs evs" by blast
    with reply Inr l logs show ?thesis by (simp add: classify_def)
  qed
qed

text \<open>
  Claim C9, as the code has it. The id is marked seen before the other attributes are
  read. So when the id of a new entry was read and reading its author (element or text),
  the list of its mention elements or its content (element or text) fails, the entry is
  marked seen and only log lines are written: no completion call, nothing typed, the
  history unchanged. From then on an entry with this id does nothing, in a single step, in
  a poll and in the whole watch loop, even when its attributes can be read by then.
\<close>

theorem consumed_on_failure:
  assumes "idAttr m = Inr i" and "i \<noteq> []" and "\<not> seen s i" and "extractionFails m"
  shows "(\<exists>evs. processMessage orbit s (m, rx) = Next (markSeen s i) evs \<and> onlyLogs evs)
    \<and> seen (markSeen s i) i
    \<and> conversationHistory (markSeen s i) = conversationHistory s
    \<and> (idAttr m' = Inr i \<longrightarrow> processMessage orbit (markSeen s i) (m', rx') = Next (markSeen s i) [])
    \<and> processMessages orbit (markSeen s i) (withoutId i ms) = processMessages orbit (markSeen s i) ms
    \<and> watchLoop orbit (markSeen s i) (map (tickWithoutId i) ticks) = watchLoop orbit (markSeen s i) ticks"
proof -
  have marked: "seen (markSeen s i) i" by (simp add: markSeen_def seen_def)
  have first: "\<exists>evs. processMessage orbit s (m, rx) = Next (markSeen s i) evs \<and> onlyLogs evs"
  proof (cases "failing (usernameElement m)")
    case True
    with assms(1-3) show ?thesis
      by (auto simp: processMessage_def failing_def markSeen_def onlyLogs_def isl_def
          split: sum.splits option.splits)
  next
    case False
    with assms(4) have "isl (mentionElements m) \<or> failing (contentElement m)"
      by (simp add: extractionFails_def)
    from classify_fails [OF this] obtain evs where
      "classify orbit (markSeen s i) m rx = Next (markSeen s i) evs" and "onlyLogs evs" by blast
    with assms(1-3) show ?thesis
      by (auto simp: processMessage_def Let_def markSeen_def onlyLogs_def
          split: sum.splits option.splits)
  qed
  from first marked show ?thesis
    by (simp add: seen_skip batch_withoutId watchLoop_withoutId) (simp add: markSeen_def)
qed

theorem consumed_on_failure_witness:
  "processMessage asciiOnly botService
     (brokenEntry, \<lparr>completion = Response 200 (okBody (str ''hi'')), textbox = workingBox\<rparr>)
   = Next (markSeen botService (str ''m1''))
       [LogError ''Username element not found'', LogDebug ''Message HTML: %s'']
   \<and> processMessage asciiOnly (markSeen botService (str ''m1''))
     (mentionEntry (str ''alice''), \<lparr>completion = Response 200 (okBody (str ''hi'')), textbox = workingBox\<rparr>)
   = Next (markSeen botService (str ''m1'')) []"
proof -
  have a: "idAttr brokenEntry = Inr (str ''m1'')" by (simp add: brokenEntry_def)
  have b: "str ''m1'' \<noteq> []" by (simp add: str_def)
  have c: "\<not> seen botService (str ''m1'')" by (simp add: botService_def seen_def)
  have d: "extractionFails brokenEntry" by (simp add: extractionFails_def failing_def brokenEntry_def)
  have e: "idAttr (mentionEntry (str ''alice'')) = Inr (str ''m1'')" by (simp add: mentionEntry_def)
  have f: "effects (processMessage asciiOnly botService
     (brokenEntry, \<lparr>completion = Response 200 (okBody (str ''hi'')), textbox = workingBox\<rparr>))
     = [LogError ''Username element not found'', LogDebug ''Message HTML: %s'']"
    using b by (simp add: processMessage_def brokenEntry_def botService_def seen_def)
  from consumed_on_failure [OF a b c d, of asciiOnly
      "\<lparr>completion = Response 200 (okBody (str ''hi'')), textbox = workingBox\<rparr>"
      "mentionEntry (str ''alice'')"
      "\<lparr>completion = Response 200 (okBody (str ''hi'')), textbox = workingBox\<rparr>" "[]" "[]"] e f
  show ?thesis by auto
qed

text \<open>
  A mention element whose text cannot be read is different: the loop logs it and goes on
  with the next mention, so the entry is still answered when another mention matches.
\<close>

theorem mention_text_failure_counterexample:
  "effects (processMessage asciiOnly botService
      (flakyMentionEntry,
       \<lparr>completion = Response 200 (okBody (str ''Hi, there.'')), textbox = workingBox\<rparr>))
   = [LogError ''Failed to get mention text'',
      Println [str ''Detected message to bot:'', str ''@Bot hello.''],
      Request (requestMessages botService (str ''hello'' @ [10])),
      Println [str ''ChatGPT response:'', str ''Hi there'' @ [10]],
      Click, Type (str ''Hi there'' @ [10]), Press ''Enter'']"
  by (simp add: processMessage_def classify_def respond_def askChatGPT_def isReplyToBot_def
      flakyMentionEntry_def botService_def okBody_def workingBox_def seen_def extractContent_def
      member_def nameMatches_def str_def TrimSpace_def TrimPrefix_def isSpace_def runeFoldEq_def
      asciiOnly_def ReplaceAll_def Let_def typeInChat_def normalizeReply_def Fields_def
      requestMessages_def)

section \<open>An error of the reply check\<close>

lemma isReplyToBot_markSeen: "isReplyToBot orbit (markSeen s i) m = isReplyToBot orbit s m"
  by (simp add: isReplyToBot_def markSeen_def split: sum.splits option.splits)

lemma classify_reply_error:
  "isReplyToBot orbit s m = Inl e \<Longrightarrow>
   classify orbit s m rx = Next s [LogError ''Failed to check if message is a reply to bot'']"
  by (simp add: classify_def)

text \<open>
  Claim C10. When \<open>isReplyToBot\<close> returns an error the entry is passed over: only log
  lines, no completion call, nothing typed, the history unchanged, whatever the mentions
  are. The reply check comes before the mention check: a new entry by another author gets
  the one log line of the reply check and its mentions are not looked at. The entry, if
  its id could be read, is marked seen, and an entry with this id does nothing afterwards.
\<close>

theorem reply_error_skips:
  assumes "isReplyToBot orbit s m = Inl e"
  shows "skipped s (processMessage orbit s (m, rx))
    \<and> (idAttr m = Inr i \<and> i \<noteq> [] \<and> \<not> seen s i
         \<and> usernameElement m = Inr (Some (Element (Inr author)))
         \<and> \<not> nameMatches orbit (botUsername s) author \<longrightarrow>
       processMessage orbit s (m, rx) =
         Next (markSeen s i) [LogError ''Failed to check if message is a reply to bot''])
    \<and> (idAttr m = Inr i \<and> i \<noteq> [] \<longrightarrow>
       (\<exists>s' evs. processMessage orbit s (m, rx) = Next s' evs \<and> seen s' i
          \<and> (idAttr m' = Inr i \<longrightarrow> processMessage orbit s' (m', rx') = Next s' [])
          \<and> processMessages orbit s' (withoutId i ms) = processMessages orbit s' ms
          \<and> watchLoop orbit s' (map (tickWithoutId i) ticks) = watchLoop orbit s' ticks))"
proof -
  have c: "\<And>j. classify orbit (markSeen s j) m rx =
      Next (markSeen s j) [LogError ''Failed to check if message is a reply to bot'']"
    using assms by (simp add: classify_reply_error isReplyToBot_markSeen)
  have sk: "skipped s (processMessage orbit s (m, rx))"
    using c
    by (auto simp: processMessage_def Let_def skipped_def onlyLogs_def markSeen_def
        split: sum.splits option.splits)
  then obtain s' evs where p: "processMessage orbit s (m, rx) = Next s' evs"
    by (cases "processMessage orbit s (m, rx)") (simp_all add: skipped_def)
  have exact: "processMessage orbit s (m, rx) =
         Next (markSeen s i) [LogError ''Failed to check if message is a reply to bot'']"
    if "idAttr m = Inr i \<and> i \<noteq> [] \<and> \<not> seen s i
         \<and> usernameElement m = Inr (Some (Element (Inr author)))
         \<and> \<not> nameMatches orbit (botUsername s) author"
    using that c [of i] by (simp add: processMessage_def Let_def markSeen_def)
  have later: "\<exists>s' evs. processMessage orbit s (m, rx) = Next s' evs \<and> seen s' i
          \<and> (idAttr m' = Inr i \<longrightarrow> processMessage orbit s' (m', rx') = Next s' [])
          \<and> processMessages orbit s' (withoutId i ms) = processMessages orbit s' ms
          \<and> watchLoop orbit s' (map (tickWithoutId i) ticks) = watchLoop orbit s' ticks"
    if "idAttr m = Inr i \<and> i \<noteq> []"
  proof -
    from p that have "seen s' i" by (auto dest: fresh_marked)
    with p show ?thesis
      by (simp add: seen_skip batch_withoutId watchLoop_withoutId)
  qed
  from sk exact later show ?thesis by blast
qed

theorem reply_error_skips_witness:
  "processMessage asciiOnly botService
     (replyErrorEntry, \<lparr>completion = Response 200 (okBody (str ''hi'')), textbox = workingBox\<rparr>)
   = Next (markSeen botService (str ''m1'')) [LogError ''Failed to check if message is a reply to bot'']
   \<and> fst (mentionLoop asciiOnly (str ''Bot'') [Element (Inr (str ''@Bot''))])"
proof -
  have a: "isReplyToBot asciiOnly botService replyErrorEntry =
      Inl (Wrap ''failed to get username text'' (Cause ''element is not attached''))"
    by (simp add: isReplyToBot_def replyErrorEntry_def)
  have b: "idAttr replyErrorEntry = Inr (str ''m1'') \<and> str ''m1'' \<noteq> [] \<and> \<not> seen botService (str ''m1'')
         \<and> usernameElement replyErrorEntry = Inr (Some (Element (Inr (str ''alice''))))
         \<and> \<not> nameMatches asciiOnly (botUsername botService) (str ''alice'')"
    by (simp add: replyErrorEntry_def botService_def seen_def nameMatches_def str_def TrimSpace_def
        TrimPrefix_def isSpace_def runeFoldEq_def asciiOnly_def)
  have c: "fst (mentionLoop asciiOnly (str ''Bot'') [Element (Inr (str ''@Bot''))])"
    by (simp add: nameMatches_def str_def TrimSpace_def TrimPrefix_def isSpace_def runeFoldEq_def)
  from reply_error_skips [OF a, of "\<lparr>completion = Response 200 (okBody (str ''hi'')), textbox = workingBox\<rparr>"
      "str ''m1''" "str ''alice''"] b c show ?thesis by blast
qed

end
